theory Spec2Isabelle
  imports Complex_Main
begin

section \<open>Data model\<close>

text \<open>
  Embeddings are NumPy float arrays. A vector is a list of reals, the values of its
  entries, and a matrix a list of rows. Cluster labels are integers, \<open>-1\<close> marks
  noise. Row positions are naturals.
\<close>

type_synonym vec = "real list"
type_synonym matrix = "real list list"

section \<open>float64 arithmetic\<close>

text \<open>
  A NumPy float is an IEEE 754 binary64 number: a 53-bit significand and an exponent from
  \<open>-1022\<close> to \<open>1023\<close>. An arithmetic operation delivers its exact result rounded to
  the nearest such number, a tie going to the even significand. \<open>round_f64\<close> is that
  rounding: between \<open>pow2 e\<close> and \<open>pow2 (e + 1)\<close> the doubles are the multiples of
  \<open>pow2 (e - 52)\<close>; below \<open>pow2 (- 1022)\<close>, the subnormal range, the spacing stays
  \<open>pow2 (- 1074)\<close>. A result that rounds beyond \<open>f64_max\<close> is delivered as an
  infinity (\<open>f64\<close>, below). Signed zeros are not distinguished.
\<close>

definition pow2 :: "int \<Rightarrow> real" where
  "pow2 e = (if 0 \<le> e then 2 ^ nat e else 1 / 2 ^ nat (- e))"

definition round_half_even :: "real \<Rightarrow> int" where
  "round_half_even y =
     (let f = \<lfloor>y\<rfloor>
      in if y - of_int f < 1 / 2 then f
         else if 1 / 2 < y - of_int f then f + 1
         else if even f then f else f + 1)"

definition f64_exponent :: "real \<Rightarrow> int" where
  "f64_exponent x = max \<lfloor>log 2 \<bar>x\<bar>\<rfloor> (- 1022)"

definition round_f64 :: "real \<Rightarrow> real" where
  "round_f64 x =
     (if x = 0 then 0
      else pow2 (f64_exponent x - 52)
             * of_int (round_half_even (x / pow2 (f64_exponent x - 52))))"

definition f64_max :: real where
  "f64_max = (2 ^ 53 - 1) * 2 ^ 971"


definition f64_eta :: real where
  "f64_eta = 1 / 2 ^ 1075"

definition fsum :: "real \<Rightarrow> real list \<Rightarrow> real" where
  "fsum a qs = foldl (\<lambda>s q. round_f64 (s + q)) a qs"

section \<open>embeddings.py: find_dense_clusters\<close>

subsection \<open>The library calls it makes\<close>

text \<open>
  \<open>hdbscan.HDBSCAN(...)\<close> builds a clusterer from its keyword arguments;
  \<open>fit_predict\<close> is the library's clustering and is a parameter of the model: it maps
  the clusterer and the embedding matrix to one label per row.
\<close>

record hdbscan_clusterer =
  min_cluster_size :: int
  min_samples :: int
  metric :: string
  cluster_selection_method :: string

text \<open>
  \<open>NearestNeighbors(n_neighbors=n, metric='euclidean').fit(P).kneighbors(Q)\<close>: for every
  row of \<open>Q\<close> the \<open>n\<close> smallest Euclidean distances to rows of \<open>P\<close>, ascending.
\<close>

definition euclidean :: "vec \<Rightarrow> vec \<Rightarrow> real" where
  "euclidean p q = sqrt (sum_list (map (\<lambda>(a, b). (a - b) * (a - b)) (zip p q)))"

definition kneighbors :: "nat \<Rightarrow> matrix \<Rightarrow> matrix \<Rightarrow> real list list" where
  "kneighbors n P Q = map (\<lambda>q. take n (sort (map (euclidean q) P))) Q"

text \<open>\<open>np.mean\<close> of a two-dimensional array: the mean of all its entries.\<close>

definition np_mean :: "real list list \<Rightarrow> real" where
  "np_mean M = sum_list (concat M) / real (length (concat M))"

text \<open>\<open>np.unique\<close>: the distinct values in ascending order.\<close>

definition np_unique :: "int list \<Rightarrow> int list" where
  "np_unique ls = sort (remdups ls)"

text \<open>
  \<open>sorted(items, key=k, reverse=True)\<close>: CPython reverses the list, sorts it stably in
  ascending key order and reverses the result, so that elements with equal keys keep
  their original order.
\<close>

definition py_sorted_reverse :: "('a \<Rightarrow> real) \<Rightarrow> 'a list \<Rightarrow> 'a list" where
  "py_sorted_reverse k xs = rev (sort_key k (rev xs))"

text \<open>The slice \<open>xs[:n]\<close> for a Python integer \<open>n\<close>; a negative \<open>n\<close> counts from the end.\<close>

definition py_slice_to :: "int \<Rightarrow> 'a list \<Rightarrow> 'a list" where
  "py_slice_to n xs =
     (if 0 \<le> n then take (nat n) xs else take (nat (int (length xs) + n)) xs)"

subsection \<open>The function\<close>

text \<open>The keyword defaults of the signature
  \<^verbatim>\<open>find_dense_clusters(embeddings, min_cluster_size=5, min_samples=5, n_clusters=10)\<close>:
  an omitted argument is \<open>None\<close>.\<close>

definition default_min_cluster_size :: int where
  "default_min_cluster_size = 5"

definition default_min_samples :: int where
  "default_min_samples = 5"

definition default_n_clusters :: int where
  "default_n_clusters = 10"

definition arg_or :: "'a \<Rightarrow> 'a option \<Rightarrow> 'a" where
  "arg_or d a = (case a of None \<Rightarrow> d | Some v \<Rightarrow> v)"

text \<open>Lines 38-43: the clusterer that \<open>find_dense_clusters\<close> constructs.\<close>

definition make_clusterer :: "int option \<Rightarrow> int option \<Rightarrow> hdbscan_clusterer" where
  "make_clusterer mcs ms =
     \<lparr> min_cluster_size = arg_or default_min_cluster_size mcs,
       min_samples = arg_or default_min_samples ms,
       metric = ''euclidean'',
       cluster_selection_method = ''eom'' \<rparr>"

text \<open>Lines 47-48: the non-noise labels.\<close>

definition unique_clusters :: "int list \<Rightarrow> int list" where
  "unique_clusters cluster_labels = filter (\<lambda>l. l \<noteq> - 1) (np_unique cluster_labels)"

text \<open>Lines 63-64: boolean-mask selection of a cluster's rows and of their positions.\<close>

definition cluster_points :: "matrix \<Rightarrow> int list \<Rightarrow> int \<Rightarrow> matrix" where
  "cluster_points embeddings cluster_labels label =
     map fst (filter (\<lambda>(e, l). l = label) (zip embeddings cluster_labels))"

definition cluster_point_indices :: "int list \<Rightarrow> int \<Rightarrow> nat list" where
  "cluster_point_indices cluster_labels label =
     filter (\<lambda>i. cluster_labels ! i = label) [0 ..< length cluster_labels]"

text \<open>Lines 69-72: the average distance to the \<open>k\<close> nearest neighbours, the first column
  (the distance of a point to itself) dropped. The distances and their mean are the
  library's; they are taken exact, and the mean is delivered as a double.\<close>

definition avg_knn_dist :: "int \<Rightarrow> matrix \<Rightarrow> real" where
  "avg_knn_dist k pts =
     round_f64 (np_mean (map (drop 1) (kneighbors (nat (k + 1)) pts pts)))"

text \<open>Lines 67-76: the density of one cluster, \<^verbatim>\<open>1.0 / (avg_dist + 1e-6)\<close> in float64
  arithmetic: the literal \<open>1e-6\<close> is the double nearest to \<open>1 / 10 ^ 6\<close>, the sum and
  the quotient are rounded. Neither can overflow for a finite average.\<close>

definition cluster_density :: "matrix \<Rightarrow> real" where
  "cluster_density pts =
     (let k = min 5 (int (length pts) - 1)
      in if 0 < k then
           (let avg_dist = avg_knn_dist k pts
            in round_f64 (1 / round_f64 (avg_dist + round_f64 (1 / 10 ^ 6))))
         else 0)"

text \<open>Lines 58-79: the dictionary \<open>cluster_densities\<close> as its items in insertion order
  (the labels of \<open>unique_clusters\<close> are distinct, so no key is overwritten).\<close>

definition cluster_densities :: "matrix \<Rightarrow> int list \<Rightarrow> (int \<times> real) list" where
  "cluster_densities embeddings cluster_labels =
     map (\<lambda>label. (label, cluster_density (cluster_points embeddings cluster_labels label)))
       (unique_clusters cluster_labels)"

text \<open>Lines 82-86.\<close>

definition sorted_clusters :: "matrix \<Rightarrow> int list \<Rightarrow> (int \<times> real) list" where
  "sorted_clusters embeddings cluster_labels =
     py_sorted_reverse snd (cluster_densities embeddings cluster_labels)"

definition densest_cluster_labels :: "int \<Rightarrow> matrix \<Rightarrow> int list \<Rightarrow> int list" where
  "densest_cluster_labels n_clusters embeddings cluster_labels =
     (let sc = sorted_clusters embeddings cluster_labels;
          n_densest = min n_clusters (int (length sc))
      in map fst (py_slice_to n_densest sc))"

text \<open>The whole function: the pair \<open>(densest_cluster_labels, densest_cluster_indices)\<close>.\<close>

definition find_dense_clusters ::
  "(hdbscan_clusterer \<Rightarrow> matrix \<Rightarrow> int list) \<Rightarrow> matrix \<Rightarrow> int option \<Rightarrow> int option \<Rightarrow>
     int option \<Rightarrow> int list \<times> nat list list" where
  "find_dense_clusters fit_predict embeddings mcs ms nc =
     (let clusterer = make_clusterer mcs ms;
          cluster_labels = fit_predict clusterer embeddings;
          num_clusters = length (unique_clusters cluster_labels)
      in if num_clusters = 0 then ([], [])
         else
           (let labels = densest_cluster_labels (arg_or default_n_clusters nc)
                           embeddings cluster_labels
            in (labels, map (cluster_point_indices cluster_labels) labels)))"

text \<open>embeddings.py, lines 171-176: the call made by \<open>main\<close>.\<close>

definition main_find_dense_clusters ::
  "(hdbscan_clusterer \<Rightarrow> matrix \<Rightarrow> int list) \<Rightarrow> matrix \<Rightarrow> int \<Rightarrow> int list \<times> nat list list" where
  "main_find_dense_clusters fit_predict resume_embeddings n_clusters =
     find_dense_clusters fit_predict resume_embeddings (Some 10) (Some 5) (Some n_clusters)"

section \<open>NumPy and scikit-learn operations used by the reduction\<close>

text \<open>
  NumPy's float division does not raise: a zero divisor gives \<open>nan\<close> for a zero dividend
  and a signed infinity otherwise. HOL's \<open>x / 0 = 0\<close> would hide that, so the quotient
  is a value of \<open>npfloat\<close>. \<open>np_divide\<close> is the division with an exact quotient; it
  serves the derivations of the reduced vectors, where the arithmetic of the library's
  standardization and projection is taken exact as well. The division as float64 computes
  it is \<open>np_true_divide\<close>, below.
\<close>

datatype npfloat = Fin real | NaN | PosInf | NegInf

datatype py_error = KeyError | IndexError | ValueError | ZeroDivisionError

definition np_divide :: "real \<Rightarrow> real \<Rightarrow> npfloat" where
  "np_divide x y =
     (if y = 0 then (if x = 0 then NaN else if 0 < x then PosInf else NegInf)
      else Fin (x / y))"



text \<open>
  The float64 operations of the two normalizers. \<open>f64 x\<close> is what an operation with the
  exact result \<open>x\<close> delivers: the rounded value, or an infinity when that lies beyond
  \<open>f64_max\<close>. The entries of the matrices are finite, so \<open>np.square\<close> (and \<open>emb**2\<close>,
  which NumPy computes as a square) and the dividend of the division take a real;
  sums, square roots, maxima and divisors can be infinite or \<open>nan\<close>. \<open>np.sum\<close> along a
  row of fewer than eight entries adds them from left to right; \<open>np.sqrt\<close> is correctly
  rounded; \<open>np.maximum\<close> propagates \<open>nan\<close>.
\<close>

definition f64 :: "real \<Rightarrow> npfloat" where
  "f64 x =
     (let r = round_f64 x
      in if f64_max < r then PosInf else if r < - f64_max then NegInf else Fin r)"

definition np_square :: "real \<Rightarrow> npfloat" where
  "np_square x = f64 (x * x)"

fun np_add :: "npfloat \<Rightarrow> npfloat \<Rightarrow> npfloat" where
  "np_add (Fin a) (Fin b) = f64 (a + b)"
| "np_add NaN _ = NaN"
| "np_add _ NaN = NaN"
| "np_add PosInf NegInf = NaN"
| "np_add NegInf PosInf = NaN"
| "np_add PosInf _ = PosInf"
| "np_add _ PosInf = PosInf"
| "np_add NegInf _ = NegInf"
| "np_add _ NegInf = NegInf"

definition np_sum :: "npfloat list \<Rightarrow> npfloat" where
  "np_sum vs = foldl np_add (Fin 0) vs"

definition np_sqrt :: "npfloat \<Rightarrow> npfloat" where
  "np_sqrt v =
     (case v of
        Fin x \<Rightarrow> if x < 0 then NaN else Fin (round_f64 (sqrt x))
      | NaN \<Rightarrow> NaN
      | PosInf \<Rightarrow> PosInf
      | NegInf \<Rightarrow> NaN)"


definition np_true_divide :: "real \<Rightarrow> npfloat \<Rightarrow> npfloat" where
  "np_true_divide x d =
     (case d of
        Fin y \<Rightarrow>
          if y = 0 then (if x = 0 then NaN else if 0 < x then PosInf else NegInf)
          else f64 (x / y)
      | NaN \<Rightarrow> NaN
      | PosInf \<Rightarrow> Fin 0
      | NegInf \<Rightarrow> Fin 0)"

text \<open>\<open>np.sqrt(np.sum(np.square(row)))\<close> as computed: the norm of one row.\<close>

definition np_row_norm :: "vec \<Rightarrow> npfloat" where
  "np_row_norm row = np_sqrt (np_sum (map np_square row))"

text \<open>The exact L2 norm of a row.\<close>

definition l2_norm :: "vec \<Rightarrow> real" where
  "l2_norm v = sqrt (sum_list (map (\<lambda>x. x * x) v))"

definition dot :: "vec \<Rightarrow> vec \<Rightarrow> real" where
  "dot a b = sum_list (map (\<lambda>(x, y). x * y) (zip a b))"

definition vec_sub :: "vec \<Rightarrow> vec \<Rightarrow> vec" where
  "vec_sub a b = map (\<lambda>(x, y). x - y) (zip a b)"

definition n_features :: "matrix \<Rightarrow> nat" where
  "n_features X = (case X of [] \<Rightarrow> 0 | r # _ \<Rightarrow> length r)"

definition column :: "matrix \<Rightarrow> nat \<Rightarrow> vec" where
  "column X j = map (\<lambda>row. row ! j) X"

text \<open>Per-feature mean and (population) variance, \<open>np.mean(X, axis=0)\<close> and
  \<open>np.var(X, axis=0)\<close>.\<close>

definition feature_means :: "matrix \<Rightarrow> vec" where
  "feature_means X =
     map (\<lambda>j. sum_list (column X j) / real (length X)) [0 ..< n_features X]"

definition feature_vars :: "matrix \<Rightarrow> vec" where
  "feature_vars X =
     map (\<lambda>j. sum_list (map (\<lambda>x. (x - feature_means X ! j) * (x - feature_means X ! j))
                          (column X j)) / real (length X))
       [0 ..< n_features X]"

text \<open>
  \<open>StandardScaler\<close>: \<open>fit\<close> stores the feature means and standard deviations, a zero
  deviation replaced by 1; \<open>transform\<close> subtracts the mean and divides by the scale.
\<close>

record standard_scaler =
  scaler_mean :: vec
  scaler_scale :: vec

definition scaler_fit :: "matrix \<Rightarrow> standard_scaler" where
  "scaler_fit X =
     \<lparr> scaler_mean = feature_means X,
       scaler_scale = map (\<lambda>v. if sqrt v = 0 then 1 else sqrt v) (feature_vars X) \<rparr>"

definition scaler_transform :: "standard_scaler \<Rightarrow> matrix \<Rightarrow> matrix" where
  "scaler_transform s X =
     map (\<lambda>row. map (\<lambda>((x, m), sc). (x - m) / sc)
                  (zip (zip row (scaler_mean s)) (scaler_scale s))) X"

text \<open>
  \<open>PCA(n_components=6)\<close>. \<open>fit\<close> raises \<open>ValueError\<close> unless the matrix has at least
  6 rows and 6 features; it stores the feature means and the principal axes of the centred
  matrix. The singular value decomposition that yields the axes is the library's and is a
  parameter, \<open>principal_axes\<close>. \<open>transform\<close> raises \<open>ValueError\<close> on a matrix without
  rows and otherwise computes \<open>(X - mean) @ components.T\<close>.
\<close>

record pca =
  pca_mean :: vec
  pca_components :: matrix

definition center :: "matrix \<Rightarrow> matrix" where
  "center X = map (\<lambda>row. vec_sub row (feature_means X)) X"

definition pca_fit :: "(matrix \<Rightarrow> matrix) \<Rightarrow> matrix \<Rightarrow> py_error + pca" where
  "pca_fit principal_axes X =
     (if min (length X) (n_features X) < 6 then Inl ValueError
      else Inr \<lparr> pca_mean = feature_means X, pca_components = principal_axes (center X) \<rparr>)"

definition pca_project :: "pca \<Rightarrow> vec \<Rightarrow> vec" where
  "pca_project p row = map (dot (vec_sub row (pca_mean p))) (pca_components p)"

definition pca_transform :: "pca \<Rightarrow> matrix \<Rightarrow> py_error + matrix" where
  "pca_transform p X = (if X = [] then Inl ValueError else Inr (map (pca_project p) X))"

text \<open>Integer-array indexing \<open>X[indices]\<close>: a negative index counts from the end, an
  index outside \<open>[-N, N)\<close> raises \<open>IndexError\<close>.\<close>

fun np_take :: "'a list \<Rightarrow> int list \<Rightarrow> py_error + 'a list" where
  "np_take X [] = Inr []"
| "np_take X (i # rest) =
     (if i < - int (length X) \<or> int (length X) \<le> i then Inl IndexError
      else (case np_take X rest of
              Inl e \<Rightarrow> Inl e
            | Inr rows \<Rightarrow> Inr (X ! nat (if i < 0 then int (length X) + i else i) # rows)))"

text \<open>Boolean-mask indexing \<open>X[flags]\<close>.\<close>

definition np_mask :: "'a list \<Rightarrow> bool list \<Rightarrow> 'a list" where
  "np_mask X flags = map fst (filter snd (zip X flags))"

section \<open>cluster_analysis.py\<close>

text \<open>Lines 194-204, \<open>normalize_embeddings\<close>: row norms, floored at \<open>1e-10\<close>, divide the
  rows. Two readings: with exact arithmetic, as the last step of the derivation of a
  reduced vector, and in float64 arithmetic, where the statement lines are the same and
  every operation is NumPy's.\<close>

definition normalize_embeddings :: "matrix \<Rightarrow> npfloat list list" where
  "normalize_embeddings embeddings =
     (let norms = map l2_norm embeddings;
          norms = map (\<lambda>n. max n (1 / 10 ^ 10)) norms
      in map (\<lambda>(row, n). map (\<lambda>x. np_divide x n) row) (zip embeddings norms))"


text \<open>
  Lines 100-159 and 184 of \<open>save_cluster_embeddings\<close>: the 6-D matrix written to
  \<open>cluster_N_embeddings_6d.npy\<close>. The embeddings file may be missing (\<open>None\<close>), in which
  case, as when no index is valid, the function returns without writing anything.
\<close>

definition save_cluster_embeddings_6d ::
  "(matrix \<Rightarrow> matrix) \<Rightarrow> matrix option \<Rightarrow> int list \<Rightarrow> py_error + npfloat list list option" where
  "save_cluster_embeddings_6d principal_axes embeddings_file resume_indices =
     (case embeddings_file of
        None \<Rightarrow> Inr None
      | Some all_embeddings \<Rightarrow>
          (let valid_indices = filter (\<lambda>idx. idx < int (length all_embeddings)) resume_indices
           in if valid_indices = [] then Inr None
              else
                (case np_take all_embeddings valid_indices of
                   Inl e \<Rightarrow> Inl e
                 | Inr cluster_embeddings \<Rightarrow>
                     (let scaler = scaler_fit cluster_embeddings;
                          scaled_embeddings = scaler_transform scaler cluster_embeddings
                      in case pca_fit principal_axes scaled_embeddings of
                           Inl e \<Rightarrow> Inl e
                         | Inr p \<Rightarrow>
                             (case pca_transform p scaled_embeddings of
                                Inl e \<Rightarrow> Inl e
                              | Inr embeddings_6d \<Rightarrow>
                                  Inr (Some (normalize_embeddings embeddings_6d)))))))"

section \<open>create_unbiased_dataset.py\<close>

subsection \<open>The Python runtime it relies on\<close>

text \<open>
  Three library behaviours are parameters: the order in which \<open>list(set(xs))\<close> lists the
  distinct elements, the generator state that \<open>random.seed(a)\<close> installs, and
  \<open>random.sample(population, k)\<close>, which reads the global generator state and leaves a
  new one. \<open>'g\<close> is the type of generator states.
\<close>

record 'g py_runtime =
  set_to_list :: "int list \<Rightarrow> int list"
  random_seed :: "int \<Rightarrow> 'g"
  random_sample :: "'g \<Rightarrow> int list \<Rightarrow> nat \<Rightarrow> int list \<times> 'g"

text \<open>
  What the language guarantees of them: a set lists each element once, and a sample of
  size \<open>k \<le> len(population)\<close> consists of the elements at \<open>k\<close> distinct positions.
\<close>

definition py_runtime_ok :: "'g py_runtime \<Rightarrow> bool" where
  "py_runtime_ok rt \<longleftrightarrow>
     (\<forall>xs. distinct (set_to_list rt xs) \<and> set (set_to_list rt xs) = set xs) \<and>
     (\<forall>g pop k. k \<le> length pop \<longrightarrow>
        (\<exists>ps. length ps = k \<and> distinct ps \<and> set ps \<subseteq> {..< length pop}
              \<and> fst (random_sample rt g pop k) = map ((!) pop) ps))"

subsection \<open>Inputs and outputs\<close>

text \<open>
  The files the function reads: the cleaned CSV (its rows, of any type \<open>'row\<close>, labelled
  \<open>0 .. len-1\<close> by \<open>read_csv\<close>), the embedding matrix, whether the clusters directory
  exists, and for each cluster number the \<open>resume_id\<close> values of its JSON file
  (\<open>None\<close> when the file is missing or cannot be loaded).
\<close>

record 'row rebalancer_files =
  cleaned_resumes_csv :: "'row list option"
  resume_embeddings_npy :: "matrix option"
  clusters_dir_exists :: bool
  cluster_embeddings_json :: "int \<Rightarrow> int list option"

record 'row unbiased_output =
  df_unbiased :: "'row list"
  removed_df :: "'row list"
  unique_indices_to_remove :: "int list"
  removed_counts :: "(int \<times> nat) list"
  unbiased_embeddings :: matrix
  removed_embeddings :: matrix
  all_6d_normalized :: "npfloat list list"
  unbiased_6d_normalized :: "npfloat list list"
  removed_6d_normalized :: "npfloat list list"

subsection \<open>The steps\<close>

text \<open>Lines 46-64: the clusters whose JSON file loads, in the order of \<open>top_clusters\<close>.\<close>

definition top_clusters :: "int list" where
  "top_clusters = [1, 2, 3]"

fun load_cluster_embeddings :: "(int \<Rightarrow> int list option) \<Rightarrow> int list \<Rightarrow> (int \<times> int list) list" where
  "load_cluster_embeddings json [] = []"
| "load_cluster_embeddings json (cluster_num # rest) =
     (case json cluster_num of
        None \<Rightarrow> load_cluster_embeddings json rest
      | Some resume_ids \<Rightarrow> (cluster_num, resume_ids) # load_cluster_embeddings json rest)"

text \<open>Lines 72-82: one cluster's selection. The generator state the loop arrives with is
  overwritten by \<open>random.seed(42)\<close>.\<close>

definition select_for_cluster :: "'g py_runtime \<Rightarrow> 'g \<Rightarrow> int list \<Rightarrow> (int list \<times> nat) \<times> 'g" where
  "select_for_cluster rt g resume_ids =
     (let unique_resume_ids = set_to_list rt resume_ids;
          g_seeded = random_seed rt 42;
          num_to_remove = length unique_resume_ids div 2;
          (resume_ids_to_remove, g_after) =
             random_sample rt g_seeded unique_resume_ids num_to_remove
      in ((resume_ids_to_remove, num_to_remove), g_after))"

text \<open>Lines 67-88: the loop over the loaded clusters, threading the generator state, the
  list \<open>indices_to_remove\<close> and the dictionary \<open>removed_counts\<close> (its items in insertion
  order).\<close>

fun select_removals ::
  "'g py_runtime \<Rightarrow> 'g \<Rightarrow> (int \<times> int list) list \<Rightarrow> int list \<Rightarrow> (int \<times> nat) list \<Rightarrow>
     'g \<times> int list \<times> (int \<times> nat) list" where
  "select_removals rt g [] indices counts = (g, indices, counts)"
| "select_removals rt g ((cluster_num, resume_ids) # rest) indices counts =
     (case select_for_cluster rt g resume_ids of
        ((resume_ids_to_remove, num_to_remove), g_after) \<Rightarrow>
          select_removals rt g_after rest (indices @ resume_ids_to_remove)
            (counts @ [(cluster_num, num_to_remove)]))"

text \<open>Line 98, \<open>df.drop(labels)\<close>, and line 115, \<open>df.loc[labels]\<close>: both raise \<open>KeyError\<close> on
  a label that is not a row label of the frame.\<close>

definition df_drop :: "'row list \<Rightarrow> int list \<Rightarrow> py_error + 'row list" where
  "df_drop df labels =
     (if list_all (\<lambda>l. 0 \<le> l \<and> l < int (length df)) labels
      then Inr (map snd (filter (\<lambda>(i, r). int i \<notin> set labels) (enumerate 0 df)))
      else Inl KeyError)"

definition df_loc :: "'row list \<Rightarrow> int list \<Rightarrow> py_error + 'row list" where
  "df_loc df labels =
     (if list_all (\<lambda>l. 0 \<le> l \<and> l < int (length df)) labels
      then Inr (map (\<lambda>l. df ! nat l) labels)
      else Inl KeyError)"

text \<open>Lines 121-124: the mask loop. The guard skips an index at or beyond the length; a
  negative index is written through NumPy's indexing, which counts from the end and raises
  \<open>IndexError\<close> below \<open>-len\<close>.\<close>

fun keep_mask_loop :: "bool list \<Rightarrow> int list \<Rightarrow> py_error + bool list" where
  "keep_mask_loop keep_mask [] = Inr keep_mask"
| "keep_mask_loop keep_mask (idx # rest) =
     (if idx < int (length keep_mask)
      then (if 0 \<le> idx then keep_mask_loop (keep_mask[nat idx := False]) rest
            else if - int (length keep_mask) \<le> idx
            then keep_mask_loop (keep_mask[nat (int (length keep_mask) + idx) := False]) rest
            else Inl IndexError)
      else keep_mask_loop keep_mask rest)"

text \<open>Lines 121-128: the split of the embedding matrix.\<close>

definition split_embeddings :: "matrix \<Rightarrow> int list \<Rightarrow> py_error + matrix \<times> matrix" where
  "split_embeddings all_embeddings indices =
     (case keep_mask_loop (replicate (length all_embeddings) True) indices of
        Inl e \<Rightarrow> Inl e
      | Inr keep_mask \<Rightarrow>
          Inr (np_mask all_embeddings keep_mask, np_mask all_embeddings (map Not keep_mask)))"

text \<open>Lines 158-160, the local \<open>normalize_embeddings\<close> of \<open>create_unbiased_dataset\<close> (the
  second function of that name in the repository): the rows divided by their norms, with no
  floor. Again with exact arithmetic and in float64 arithmetic.\<close>

definition normalize_embeddings_unbiased :: "matrix \<Rightarrow> npfloat list list" where
  "normalize_embeddings_unbiased emb =
     (let norm = map l2_norm emb
      in map (\<lambda>(row, n). map (\<lambda>x. np_divide x n) row) (zip emb norm))"

definition normalize_embeddings_unbiased_f64 :: "matrix \<Rightarrow> npfloat list list" where
  "normalize_embeddings_unbiased_f64 emb =
     (let norm = map np_row_norm emb
      in map (\<lambda>(row, n). map (\<lambda>x. np_true_divide x n) row) (zip emb norm))"

text \<open>Lines 144-164: one PCA, fitted on all embeddings, transforms the three matrices,
  and each result is normalized.\<close>

definition reduce_partitions ::
  "(matrix \<Rightarrow> matrix) \<Rightarrow> matrix \<Rightarrow> matrix \<Rightarrow> matrix \<Rightarrow>
     py_error + npfloat list list \<times> npfloat list list \<times> npfloat list list" where
  "reduce_partitions principal_axes all_embeddings emb_kept emb_removed =
     (case pca_fit principal_axes all_embeddings of
        Inl e \<Rightarrow> Inl e
      | Inr p \<Rightarrow>
          (case pca_transform p all_embeddings of
             Inl e \<Rightarrow> Inl e
           | Inr all_6d \<Rightarrow>
               (case pca_transform p emb_kept of
                  Inl e \<Rightarrow> Inl e
                | Inr unbiased_6d \<Rightarrow>
                    (case pca_transform p emb_removed of
                       Inl e \<Rightarrow> Inl e
                     | Inr removed_6d \<Rightarrow>
                         Inr (normalize_embeddings_unbiased all_6d,
                              normalize_embeddings_unbiased unbiased_6d,
                              normalize_embeddings_unbiased removed_6d)))))"

subsection \<open>The function\<close>

text \<open>
  Lines 94-257, from the loaded frame and matrix and the selection made: drop and look up
  the rows, split the embeddings, reduce the partitions. Line 211 divides by the number of
  rows of the frame.
\<close>

definition rebalance ::
  "(matrix \<Rightarrow> matrix) \<Rightarrow> 'row list \<Rightarrow> matrix \<Rightarrow> int list \<Rightarrow> (int \<times> nat) list \<Rightarrow>
     py_error + 'row unbiased_output" where
  "rebalance principal_axes df_full all_embeddings unique_indices counts =
     (case df_drop df_full unique_indices of
        Inl e \<Rightarrow> Inl e
      | Inr df_kept \<Rightarrow>
          (case df_loc df_full unique_indices of
             Inl e \<Rightarrow> Inl e
           | Inr df_removed \<Rightarrow>
               (case split_embeddings all_embeddings unique_indices of
                  Inl e \<Rightarrow> Inl e
                | Inr (emb_kept, emb_removed) \<Rightarrow>
                    (case reduce_partitions principal_axes all_embeddings emb_kept
                            emb_removed of
                       Inl e \<Rightarrow> Inl e
                     | Inr (all_6d_n, unbiased_6d_n, removed_6d_n) \<Rightarrow>
                         (if length df_full = 0 then Inl ZeroDivisionError
                          else
                            Inr \<lparr> df_unbiased = df_kept,
                                  removed_df = df_removed,
                                  unique_indices_to_remove = unique_indices,
                                  removed_counts = counts,
                                  unbiased_embeddings = emb_kept,
                                  removed_embeddings = emb_removed,
                                  all_6d_normalized = all_6d_n,
                                  unbiased_6d_normalized = unbiased_6d_n,
                                  removed_6d_normalized = removed_6d_n \<rparr>)))))"

text \<open>
  \<open>create_unbiased_dataset\<close>, from the global generator state \<open>g\<close> it is called in. It
  returns \<open>None\<close> when an input file or the clusters directory is missing; an exception of
  a library call ends it with that error. The generator state the loop leaves is not used.
  Lines 244-250 write, for every loaded cluster, the percentage removed, dividing by the
  number of entries of its file: a file without entries raises \<open>ZeroDivisionError\<close> there.
\<close>

definition create_unbiased_dataset ::
  "'g py_runtime \<Rightarrow> (matrix \<Rightarrow> matrix) \<Rightarrow> 'g \<Rightarrow> 'row rebalancer_files \<Rightarrow>
     py_error + 'row unbiased_output option" where
  "create_unbiased_dataset rt principal_axes g files =
     (case cleaned_resumes_csv files of
        None \<Rightarrow> Inr None
      | Some df_full \<Rightarrow>
          (case resume_embeddings_npy files of
             None \<Rightarrow> Inr None
           | Some all_embeddings \<Rightarrow>
               (if \<not> clusters_dir_exists files then Inr None
                else
                  (let cluster_embeddings_map =
                         load_cluster_embeddings (cluster_embeddings_json files) top_clusters;
                       selection = snd (select_removals rt g cluster_embeddings_map [] []);
                       indices_to_remove = fst selection;
                       counts = snd selection;
                       unique_indices = set_to_list rt indices_to_remove
                   in case rebalance principal_axes df_full all_embeddings unique_indices
                             counts of
                        Inl e \<Rightarrow> Inl e
                      | Inr out \<Rightarrow>
                          if list_ex (\<lambda>(cluster_num, resume_ids). length resume_ids = 0)
                               cluster_embeddings_map
                          then Inl ZeroDivisionError
                          else Inr (Some out)))))"

section \<open>Notions used to state the properties\<close>

text \<open>Row \<open>j\<close> of an \<open>N\<close>-row matrix is marked by an index list when the list holds
  \<open>j\<close> itself or \<open>j - N\<close>, the negative index NumPy resolves to row \<open>j\<close>.\<close>

definition marked :: "nat \<Rightarrow> int list \<Rightarrow> nat \<Rightarrow> bool" where
  "marked N indices j \<longleftrightarrow> int j \<in> set indices \<or> int j - int N \<in> set indices"

text \<open>The list \<open>resume_ids_to_remove\<close> that the loop body computes for one cluster (the
  generator state it is entered with does not matter, see \<open>select_for_cluster\<close>).\<close>

definition resume_ids_to_remove :: "'g py_runtime \<Rightarrow> int list \<Rightarrow> int list" where
  "resume_ids_to_remove rt resume_ids =
     fst (fst (select_for_cluster rt (random_seed rt 42) resume_ids))"

text \<open>A fitted reducer applied to a matrix on its own: project every row, then normalize as
  the rebalancer does.\<close>

definition reducer_transform :: "pca \<Rightarrow> matrix \<Rightarrow> npfloat list list" where
  "reducer_transform p M = normalize_embeddings_unbiased (map (pca_project p) M)"


text \<open>
  The derivation of a ReducedVector as the specification words it, from a reference matrix
  and one embedding \<open>x\<close>: standardize with the per-feature mean and standard deviation of
  the reference matrix (the deviation of a constant feature counts as 1, the feature then
  standardizes to 0), project onto the principal axes of the standardized reference
  matrix, divide by the norm floored at \<open>1e-10\<close>.
\<close>

definition feature_stds :: "matrix \<Rightarrow> vec" where
  "feature_stds X = map (\<lambda>v. if sqrt v = 0 then 1 else sqrt v) (feature_vars X)"

definition spec_standardize :: "matrix \<Rightarrow> vec \<Rightarrow> vec" where
  "spec_standardize reference x =
     map (\<lambda>((a, m), s). (a - m) / s)
       (zip (zip x (feature_means reference)) (feature_stds reference))"

definition spec_reduced_vector :: "(matrix \<Rightarrow> matrix) \<Rightarrow> matrix \<Rightarrow> vec \<Rightarrow> vec" where
  "spec_reduced_vector principal_axes reference x =
     (let z = spec_standardize reference x;
          axes = principal_axes (map (spec_standardize reference) reference);
          y = map (dot z) axes
      in map (\<lambda>c. c / max (l2_norm y) (1 / 10 ^ 10)) y)"

text \<open>
  The derivation without standardization: centre with the feature means of the reference
  matrix, project onto the principal axes of the centred reference matrix, divide by the
  norm.
\<close>

definition raw_projection :: "(matrix \<Rightarrow> matrix) \<Rightarrow> matrix \<Rightarrow> vec \<Rightarrow> vec" where
  "raw_projection principal_axes reference x =
     (let mu = feature_means reference;
          axes = principal_axes (map (\<lambda>r. vec_sub r mu) reference)
      in map (dot (vec_sub x mu)) axes)"

definition raw_reduced_vector :: "(matrix \<Rightarrow> matrix) \<Rightarrow> matrix \<Rightarrow> vec \<Rightarrow> vec" where
  "raw_reduced_vector principal_axes reference x =
     (let y = raw_projection principal_axes reference x
      in map (\<lambda>c. c / l2_norm y) y)"

text \<open>
  A check that six vectors are the principal axes of a centred matrix \<open>X\<close>: they are
  orthonormal eigenvectors of \<open>X\<^sup>T X\<close> with positive, strictly descending eigenvalues whose
  sum is the total sum of squares of \<open>X\<close>. Then no variance is left for a further axis,
  and the axes are determined up to their signs.
\<close>

definition mat_vec :: "matrix \<Rightarrow> vec \<Rightarrow> vec" where
  "mat_vec M v = map (\<lambda>row. dot row v) M"

definition gram_apply :: "matrix \<Rightarrow> vec \<Rightarrow> vec" where
  "gram_apply X a = mat_vec (transpose X) (mat_vec X a)"

definition principal_axes_certificate :: "matrix \<Rightarrow> matrix \<Rightarrow> real list \<Rightarrow> bool" where
  "principal_axes_certificate X A lam \<longleftrightarrow>
     length A = 6 \<and> length lam = 6
     \<and> map (\<lambda>a. map (dot a) A) A
         = map (\<lambda>i. map (\<lambda>j. if i = j then 1 else 0) [0 ..< 6]) [0 ..< 6]
     \<and> list_all2 (\<lambda>a l. gram_apply X a = map ((*) l) a) A lam
     \<and> sorted_wrt (\<lambda>l l'. l' < l) lam
     \<and> list_all (\<lambda>l. 0 < l) lam
     \<and> sum_list lam = sum_list (map (\<lambda>row. dot row row) X)"

section \<open>Example inputs\<close>

text \<open>Seven one-dimensional points in three clusters and one noise point; clusters 1 and 2
  have the same density.\<close>

definition example_labels :: "int list" where
  "example_labels = [1, 1, 0, 0, - 1, 2, 2]"

definition example_points :: matrix where
  "example_points = [[0], [1], [0], [0], [7], [3], [4]]"

text \<open>
  Twelve 8-dimensional embeddings in two blocks of four features. Within a block the rows
  are multiples of three orthogonal sign patterns, each with its negative, so the feature
  means are zero, the four features of a block have the same variance (9 and 100), and the
  sign patterns, scaled to length 1, are the principal axes of the raw and of the
  standardized matrix alike. Their order by explained variance differs: the second block
  dominates the raw matrix, and standardization shrinks it by a factor of 10 against 3.
\<close>

definition example_embeddings :: matrix where
  "example_embeddings =
     [[7, 7, 7, 7, 0, 0, 0, 0],
      [- 7, - 7, - 7, - 7, 0, 0, 0, 0],
      [2, 2, - 2, - 2, 0, 0, 0, 0],
      [- 2, - 2, 2, 2, 0, 0, 0, 0],
      [1, - 1, 1, - 1, 0, 0, 0, 0],
      [- 1, 1, - 1, 1, 0, 0, 0, 0],
      [0, 0, 0, 0, 22, 22, 22, 22],
      [0, 0, 0, 0, - 22, - 22, - 22, - 22],
      [0, 0, 0, 0, 10, 10, - 10, - 10],
      [0, 0, 0, 0, - 10, - 10, 10, 10],
      [0, 0, 0, 0, 4, - 4, 4, - 4],
      [0, 0, 0, 0, - 4, 4, - 4, 4]]"

text \<open>The six principal axes of the raw matrix and of the standardized matrix, by descending
  explained variance, and a stand-in for the library's decomposition that returns them.\<close>

definition example_axes_raw :: matrix where
  "example_axes_raw =
     [[0, 0, 0, 0, 1 / 2, 1 / 2, 1 / 2, 1 / 2],
      [0, 0, 0, 0, 1 / 2, 1 / 2, - (1 / 2), - (1 / 2)],
      [1 / 2, 1 / 2, 1 / 2, 1 / 2, 0, 0, 0, 0],
      [0, 0, 0, 0, 1 / 2, - (1 / 2), 1 / 2, - (1 / 2)],
      [1 / 2, 1 / 2, - (1 / 2), - (1 / 2), 0, 0, 0, 0],
      [1 / 2, - (1 / 2), 1 / 2, - (1 / 2), 0, 0, 0, 0]]"

definition example_axes_std :: matrix where
  "example_axes_std =
     [[1 / 2, 1 / 2, 1 / 2, 1 / 2, 0, 0, 0, 0],
      [0, 0, 0, 0, 1 / 2, 1 / 2, 1 / 2, 1 / 2],
      [0, 0, 0, 0, 1 / 2, 1 / 2, - (1 / 2), - (1 / 2)],
      [1 / 2, 1 / 2, - (1 / 2), - (1 / 2), 0, 0, 0, 0],
      [0, 0, 0, 0, 1 / 2, - (1 / 2), 1 / 2, - (1 / 2)],
      [1 / 2, - (1 / 2), 1 / 2, - (1 / 2), 0, 0, 0, 0]]"

definition example_principal_axes :: "matrix \<Rightarrow> matrix" where
  "example_principal_axes M =
     (if M = example_embeddings then example_axes_raw else example_axes_std)"

text \<open>A runtime that lists a set in ascending order and samples the first \<open>k\<close> elements of
  the population.\<close>

definition example_runtime :: "nat py_runtime" where
  "example_runtime =
     \<lparr> set_to_list = (\<lambda>xs. sort (remdups xs)),
       random_seed = nat,
       random_sample = (\<lambda>g population k. (take k population, Suc g)) \<rparr>"

text \<open>Files with twelve records, two cluster files (the first with a duplicate id) and no
  file for cluster 3.\<close>

definition example_files :: "nat rebalancer_files" where
  "example_files =
     \<lparr> cleaned_resumes_csv = Some [100, 101, 102, 103, 104, 105, 106, 107, 108, 109, 110, 111],
       resume_embeddings_npy = Some example_embeddings,
       clusters_dir_exists = True,
       cluster_embeddings_json =
         (\<lambda>n. if n = 1 then Some [0, 1, 2, 3, 3] else if n = 2 then Some [6, 7, 8] else None) \<rparr>"

text \<open>The result of the rebalancer on these files.\<close>

definition example_all_6d :: "npfloat list list" where
  "example_all_6d =
     [[Fin 0, Fin 0, Fin 1, Fin 0, Fin 0, Fin 0],
      [Fin 0, Fin 0, Fin (- 1), Fin 0, Fin 0, Fin 0],
      [Fin 0, Fin 0, Fin 0, Fin 0, Fin 1, Fin 0],
      [Fin 0, Fin 0, Fin 0, Fin 0, Fin (- 1), Fin 0],
      [Fin 0, Fin 0, Fin 0, Fin 0, Fin 0, Fin 1],
      [Fin 0, Fin 0, Fin 0, Fin 0, Fin 0, Fin (- 1)],
      [Fin 1, Fin 0, Fin 0, Fin 0, Fin 0, Fin 0],
      [Fin (- 1), Fin 0, Fin 0, Fin 0, Fin 0, Fin 0],
      [Fin 0, Fin 1, Fin 0, Fin 0, Fin 0, Fin 0],
      [Fin 0, Fin (- 1), Fin 0, Fin 0, Fin 0, Fin 0],
      [Fin 0, Fin 0, Fin 0, Fin 1, Fin 0, Fin 0],
      [Fin 0, Fin 0, Fin 0, Fin (- 1), Fin 0, Fin 0]]"

definition example_output :: "nat unbiased_output" where
  "example_output =
     \<lparr> df_unbiased = [102, 103, 104, 105, 107, 108, 109, 110, 111],
       removed_df = [100, 101, 106],
       unique_indices_to_remove = [0, 1, 6],
       removed_counts = [(1, 2), (2, 1)],
       unbiased_embeddings =
         [[2, 2, - 2, - 2, 0, 0, 0, 0],
          [- 2, - 2, 2, 2, 0, 0, 0, 0],
          [1, - 1, 1, - 1, 0, 0, 0, 0],
          [- 1, 1, - 1, 1, 0, 0, 0, 0],
          [0, 0, 0, 0, - 22, - 22, - 22, - 22],
          [0, 0, 0, 0, 10, 10, - 10, - 10],
          [0, 0, 0, 0, - 10, - 10, 10, 10],
          [0, 0, 0, 0, 4, - 4, 4, - 4],
          [0, 0, 0, 0, - 4, 4, - 4, 4]],
       removed_embeddings =
         [[7, 7, 7, 7, 0, 0, 0, 0],
          [- 7, - 7, - 7, - 7, 0, 0, 0, 0],
          [0, 0, 0, 0, 22, 22, 22, 22]],
       all_6d_normalized = example_all_6d,
       unbiased_6d_normalized =
         [[Fin 0, Fin 0, Fin 0, Fin 0, Fin 1, Fin 0],
          [Fin 0, Fin 0, Fin 0, Fin 0, Fin (- 1), Fin 0],
          [Fin 0, Fin 0, Fin 0, Fin 0, Fin 0, Fin 1],
          [Fin 0, Fin 0, Fin 0, Fin 0, Fin 0, Fin (- 1)],
          [Fin (- 1), Fin 0, Fin 0, Fin 0, Fin 0, Fin 0],
          [Fin 0, Fin 1, Fin 0, Fin 0, Fin 0, Fin 0],
          [Fin 0, Fin (- 1), Fin 0, Fin 0, Fin 0, Fin 0],
          [Fin 0, Fin 0, Fin 0, Fin 1, Fin 0, Fin 0],
          [Fin 0, Fin 0, Fin 0, Fin (- 1), Fin 0, Fin 0]],
       removed_6d_normalized =
         [[Fin 0, Fin 0, Fin 1, Fin 0, Fin 0, Fin 0],
          [Fin 0, Fin 0, Fin (- 1), Fin 0, Fin 0, Fin 0],
          [Fin 1, Fin 0, Fin 0, Fin 0, Fin 0, Fin 0]] \<rparr>"

text \<open>The vectors the specification's derivation gives for the twelve embeddings, and the
  standardized matrix.\<close>

definition example_spec_6d :: "npfloat list list" where
  "example_spec_6d =
     [[Fin 1, Fin 0, Fin 0, Fin 0, Fin 0, Fin 0],
      [Fin (- 1), Fin 0, Fin 0, Fin 0, Fin 0, Fin 0],
      [Fin 0, Fin 0, Fin 0, Fin 1, Fin 0, Fin 0],
      [Fin 0, Fin 0, Fin 0, Fin (- 1), Fin 0, Fin 0],
      [Fin 0, Fin 0, Fin 0, Fin 0, Fin 0, Fin 1],
      [Fin 0, Fin 0, Fin 0, Fin 0, Fin 0, Fin (- 1)],
      [Fin 0, Fin 1, Fin 0, Fin 0, Fin 0, Fin 0],
      [Fin 0, Fin (- 1), Fin 0, Fin 0, Fin 0, Fin 0],
      [Fin 0, Fin 0, Fin 1, Fin 0, Fin 0, Fin 0],
      [Fin 0, Fin 0, Fin (- 1), Fin 0, Fin 0, Fin 0],
      [Fin 0, Fin 0, Fin 0, Fin 0, Fin 1, Fin 0],
      [Fin 0, Fin 0, Fin 0, Fin 0, Fin (- 1), Fin 0]]"

definition example_standardized :: matrix where
  "example_standardized =
     [[7 / 3, 7 / 3, 7 / 3, 7 / 3, 0, 0, 0, 0],
      [- (7 / 3), - (7 / 3), - (7 / 3), - (7 / 3), 0, 0, 0, 0],
      [2 / 3, 2 / 3, - (2 / 3), - (2 / 3), 0, 0, 0, 0],
      [- (2 / 3), - (2 / 3), 2 / 3, 2 / 3, 0, 0, 0, 0],
      [1 / 3, - (1 / 3), 1 / 3, - (1 / 3), 0, 0, 0, 0],
      [- (1 / 3), 1 / 3, - (1 / 3), 1 / 3, 0, 0, 0, 0],
      [0, 0, 0, 0, 11 / 5, 11 / 5, 11 / 5, 11 / 5],
      [0, 0, 0, 0, - (11 / 5), - (11 / 5), - (11 / 5), - (11 / 5)],
      [0, 0, 0, 0, 1, 1, - 1, - 1],
      [0, 0, 0, 0, - 1, - 1, 1, 1],
      [0, 0, 0, 0, 2 / 5, - (2 / 5), 2 / 5, - (2 / 5)],
      [0, 0, 0, 0, - (2 / 5), 2 / 5, - (2 / 5), 2 / 5]]"

section \<open>Properties of float64 rounding\<close>

lemma pow2_powr: "pow2 e = 2 powr (of_int e)"
  by (simp add: pow2_def powr_real_of_int divide_inverse)

lemma pow2_pos [simp]: "0 < pow2 e"
  by (simp add: pow2_powr)

lemma pow2_add: "pow2 (a + b) = pow2 a * pow2 b"
  by (simp add: pow2_powr powr_add)

lemma pow2_mono: "a \<le> b \<Longrightarrow> pow2 a \<le> pow2 b"
  by (simp add: pow2_powr)

lemma pow2_diff: "pow2 (a - b) = pow2 a / pow2 b"
  by (simp add: pow2_powr powr_diff)

lemma floor_log2_bounds:
  assumes "x \<noteq> 0"
  shows "pow2 \<lfloor>log 2 \<bar>x\<bar>\<rfloor> \<le> \<bar>x\<bar>" and "\<bar>x\<bar> < pow2 (\<lfloor>log 2 \<bar>x\<bar>\<rfloor> + 1)"
proof -
  have pos: "0 < \<bar>x\<bar>" using assms by simp
  have "of_int \<lfloor>log 2 \<bar>x\<bar>\<rfloor> \<le> log 2 \<bar>x\<bar>" by simp
  then have "2 powr (of_int \<lfloor>log 2 \<bar>x\<bar>\<rfloor>) \<le> 2 powr (log 2 \<bar>x\<bar>)" by simp
  then show "pow2 \<lfloor>log 2 \<bar>x\<bar>\<rfloor> \<le> \<bar>x\<bar>" using pos by (simp add: pow2_powr)
  have "log 2 \<bar>x\<bar> < of_int (\<lfloor>log 2 \<bar>x\<bar>\<rfloor> + 1)" by linarith
  then have "2 powr (log 2 \<bar>x\<bar>) < 2 powr (of_int (\<lfloor>log 2 \<bar>x\<bar>\<rfloor> + 1))" by simp
  then show "\<bar>x\<bar> < pow2 (\<lfloor>log 2 \<bar>x\<bar>\<rfloor> + 1)" using pos by (simp add: pow2_powr)
qed

lemma floor_log2_unique:
  assumes "pow2 e \<le> \<bar>x\<bar>" "\<bar>x\<bar> < pow2 (e + 1)"
  shows "\<lfloor>log 2 \<bar>x\<bar>\<rfloor> = e"
proof -
  have pos: "0 < \<bar>x\<bar>" using assms(1) pow2_pos[of e] by linarith
  have "of_int e \<le> log 2 \<bar>x\<bar>"
    using assms(1) pos by (simp add: pow2_powr le_log_iff)
  moreover have "log 2 \<bar>x\<bar> < of_int e + 1"
    using assms(2) pos by (simp add: pow2_powr log_less_iff)
  ultimately show ?thesis by linarith
qed


lemma round_half_even_int [simp]: "round_half_even (of_int k) = k"
  by (simp add: round_half_even_def)

lemma round_half_even_ge: "of_int n \<le> y \<Longrightarrow> n \<le> round_half_even y"
  unfolding round_half_even_def Let_def by (auto simp: le_floor_iff) linarith+

lemma round_half_even_le: "y \<le> of_int n \<Longrightarrow> round_half_even y \<le> n"
proof -
  assume a: "y \<le> of_int n"
  have f: "\<lfloor>y\<rfloor> \<le> n" using a by (simp add: floor_le_iff)
  show ?thesis
  proof (cases "\<lfloor>y\<rfloor> = n")
    case True
    then have "y = of_int n" using a by linarith
    then show ?thesis by simp
  next
    case False
    then have "\<lfloor>y\<rfloor> + 1 \<le> n" using f by simp
    then show ?thesis unfolding round_half_even_def Let_def by auto
  qed
qed

lemma round_half_even_mono: "y \<le> z \<Longrightarrow> round_half_even y \<le> round_half_even z"
proof -
  assume yz: "y \<le> z"
  have f: "\<lfloor>y\<rfloor> \<le> \<lfloor>z\<rfloor>" using yz by (rule floor_mono)
  show ?thesis
  proof (cases "\<lfloor>y\<rfloor> = \<lfloor>z\<rfloor>")
    case True
    then show ?thesis using yz unfolding round_half_even_def Let_def by auto
  next
    case False
    then have "\<lfloor>y\<rfloor> + 1 \<le> \<lfloor>z\<rfloor>" using f by simp
    moreover have "round_half_even y \<le> \<lfloor>y\<rfloor> + 1"
      unfolding round_half_even_def Let_def by auto
    moreover have "\<lfloor>z\<rfloor> \<le> round_half_even z"
      unfolding round_half_even_def Let_def by auto
    ultimately show ?thesis by linarith
  qed
qed

lemma f64_exponent_ge: "- 1022 \<le> f64_exponent x"
  by (simp add: f64_exponent_def)

lemma f64_exponent_upper:
  assumes "x \<noteq> 0"
  shows "\<bar>x\<bar> < pow2 (f64_exponent x + 1)"
proof -
  have "\<bar>x\<bar> < pow2 (\<lfloor>log 2 \<bar>x\<bar>\<rfloor> + 1)" using assms by (rule floor_log2_bounds)
  also have "\<dots> \<le> pow2 (f64_exponent x + 1)"
    by (rule pow2_mono) (simp add: f64_exponent_def)
  finally show ?thesis .
qed


lemma f64_exponent_eq:
  assumes "pow2 e \<le> \<bar>x\<bar>" "\<bar>x\<bar> < pow2 (e + 1)" "- 1022 \<le> e"
  shows "f64_exponent x = e"
  using floor_log2_unique[OF assms(1,2)] assms(3) by (simp add: f64_exponent_def)


text \<open>Evaluation of a rounding once the binade is known.\<close>

lemma round_f64_eval:
  assumes "pow2 e \<le> \<bar>x\<bar>" "\<bar>x\<bar> < pow2 (e + 1)" "- 1022 \<le> e"
  shows "round_f64 x = pow2 (e - 52) * of_int (round_half_even (x / pow2 (e - 52)))"
proof -
  have "0 < \<bar>x\<bar>" using assms(1) pow2_pos[of e] by linarith
  then have "x \<noteq> 0" by simp
  then show ?thesis by (simp add: round_f64_def f64_exponent_eq[OF assms])
qed




lemma round_f64_mono_pos:
  assumes "0 < x" "x \<le> y"
  shows "round_f64 x \<le> round_f64 y"
proof -
  have y: "0 < y" using assms by simp
  have xn: "x \<noteq> 0" and yn: "y \<noteq> 0" using assms by auto
  have "log 2 \<bar>x\<bar> \<le> log 2 \<bar>y\<bar>" using assms by simp
  then have "\<lfloor>log 2 \<bar>x\<bar>\<rfloor> \<le> \<lfloor>log 2 \<bar>y\<bar>\<rfloor>" by (rule floor_mono)
  then have le: "f64_exponent x \<le> f64_exponent y" by (simp add: f64_exponent_def)
  define ex where "ex = f64_exponent x"
  define ey where "ey = f64_exponent y"
  have rx: "round_f64 x = pow2 (ex - 52) * of_int (round_half_even (x / pow2 (ex - 52)))"
    using xn by (simp add: round_f64_def ex_def)
  have ry: "round_f64 y = pow2 (ey - 52) * of_int (round_half_even (y / pow2 (ey - 52)))"
    using yn by (simp add: round_f64_def ey_def)
  show ?thesis
  proof (cases "ex = ey")
    case True
    have "x / pow2 (ey - 52) \<le> y / pow2 (ey - 52)"
      using assms(2) by (simp add: divide_right_mono less_imp_le)
    then have "round_half_even (x / pow2 (ey - 52)) \<le> round_half_even (y / pow2 (ey - 52))"
      by (rule round_half_even_mono)
    then have "pow2 (ey - 52) * of_int (round_half_even (x / pow2 (ey - 52)))
               \<le> pow2 (ey - 52) * of_int (round_half_even (y / pow2 (ey - 52)))"
      by (simp add: mult_le_cancel_left_pos)
    then show ?thesis unfolding rx ry True .
  next
    case False
    then have lt: "ex + 1 \<le> ey" using le by (simp add: ex_def ey_def)
    then have "- 1022 < ey" using f64_exponent_ge[of x] by (simp add: ex_def)
    then have eyf: "ey = \<lfloor>log 2 \<bar>y\<bar>\<rfloor>" by (simp add: ey_def f64_exponent_def max_def split: if_splits)
    have ylow: "pow2 ey \<le> y" using floor_log2_bounds(1)[OF yn] y unfolding eyf by simp
    have xup: "x < pow2 (ex + 1)" using f64_exponent_upper[OF xn] assms(1) by (simp add: ex_def)
    have p53: "pow2 (ex + 1) = pow2 (ex - 52) * 2 ^ 53"
    proof -
      have "pow2 (ex + 1) = pow2 ((ex - 52) + 53)" by (rule arg_cong[where f = pow2]) simp
      also have "\<dots> = pow2 (ex - 52) * pow2 53" by (rule pow2_add)
      finally show ?thesis by (simp add: pow2_def)
    qed
    have p52: "pow2 ey = pow2 (ey - 52) * 2 ^ 52"
    proof -
      have "pow2 ey = pow2 ((ey - 52) + 52)" by (rule arg_cong[where f = pow2]) simp
      also have "\<dots> = pow2 (ey - 52) * pow2 52" by (rule pow2_add)
      finally show ?thesis by (simp add: pow2_def)
    qed
    have "x / pow2 (ex - 52) \<le> of_int (2 ^ 53)"
      using xup unfolding p53 by (simp add: pos_divide_le_eq mult.commute less_imp_le)
    then have "round_half_even (x / pow2 (ex - 52)) \<le> 2 ^ 53" by (rule round_half_even_le)
    then have "of_int (round_half_even (x / pow2 (ex - 52))) \<le> (2 ^ 53 :: real)"
      by (metis of_int_le_iff of_int_numeral of_int_power)
    then have "round_f64 x \<le> pow2 (ex + 1)"
      unfolding rx p53 by (simp add: mult_le_cancel_left_pos)
    also have "\<dots> \<le> pow2 ey" using lt by (rule pow2_mono)
    also have "\<dots> \<le> round_f64 y"
    proof -
      have "of_int (2 ^ 52) \<le> y / pow2 (ey - 52)"
        using ylow unfolding p52 by (simp add: pos_le_divide_eq mult.commute)
      then have "2 ^ 52 \<le> round_half_even (y / pow2 (ey - 52))" by (rule round_half_even_ge)
      then have "(2 ^ 52 :: real) \<le> of_int (round_half_even (y / pow2 (ey - 52)))"
        by (metis of_int_le_iff of_int_numeral of_int_power)
      then show ?thesis unfolding ry p52 by (simp add: mult_le_cancel_left_pos)
    qed
    finally show ?thesis .
  qed
qed

lemma round_f64_nonneg: "0 \<le> x \<Longrightarrow> 0 \<le> round_f64 x"
proof -
  assume "0 \<le> x"
  then have "0 \<le> x / pow2 (f64_exponent x - 52)" by (intro divide_nonneg_pos) simp_all
  then have "of_int 0 \<le> x / pow2 (f64_exponent x - 52)" by simp
  then have "0 \<le> round_half_even (x / pow2 (f64_exponent x - 52))"
    by (rule round_half_even_ge)
  then have "0 \<le> pow2 (f64_exponent x - 52)
                 * real_of_int (round_half_even (x / pow2 (f64_exponent x - 52)))"
    by (intro mult_nonneg_nonneg) (simp_all add: less_imp_le)
  then show ?thesis by (simp add: round_f64_def)
qed

lemma round_f64_mono:
  assumes "0 \<le> x" "x \<le> y"
  shows "round_f64 x \<le> round_f64 y"
proof (cases "x = 0")
  case True
  then show ?thesis using round_f64_nonneg[of y] assms by (simp add: round_f64_def)
next
  case False
  then show ?thesis using assms by (intro round_f64_mono_pos) simp_all
qed

section \<open>Properties of find_dense_clusters\<close>

lemma sorted_wrt_filter_nth:
  "sorted_wrt R (filter P ys) \<Longrightarrow> i < j \<Longrightarrow> j < length ys \<Longrightarrow> P (ys ! i) \<Longrightarrow> P (ys ! j)
     \<Longrightarrow> R (ys ! i) (ys ! j)"
proof (induction ys arbitrary: i j)
  case Nil
  then show ?case by simp
next
  case (Cons y ys)
  obtain j' where j: "j = Suc j'" using Cons.prems(2) by (cases j) auto
  show ?case
  proof (cases i)
    case 0
    have "ys ! j' \<in> set (filter P ys)"
      using Cons.prems j by simp
    then show ?thesis using Cons.prems 0 j by simp
  next
    case (Suc i')
    have "sorted_wrt R (filter P ys)"
      using Cons.prems(1) by (simp split: if_splits)
    then show ?thesis using Cons.IH[of i' j'] Cons.prems Suc j by simp
  qed
qed

lemma py_sorted_reverse_stable:
  "filter (\<lambda>y. k y = c) (py_sorted_reverse k xs) = filter (\<lambda>y. k y = c) xs"
  by (simp add: py_sorted_reverse_def rev_filter [symmetric] sort_key_stable)

lemma py_sorted_reverse_desc:
  assumes "i \<le> j" "j < length xs"
  shows "k (py_sorted_reverse k xs ! j) \<le> k (py_sorted_reverse k xs ! i)"
proof -
  let ?ys = "py_sorted_reverse k xs"
  have s: "sorted (rev (map k ?ys))"
    by (simp add: py_sorted_reverse_def rev_map)
  have l: "j < length (map k ?ys)" using assms by (simp add: py_sorted_reverse_def)
  have "map k ?ys ! j \<le> map k ?ys ! i"
    using s assms(1) l by (rule sorted_rev_nth_mono)
  then show ?thesis using assms by (simp add: py_sorted_reverse_def)
qed

lemma py_sorted_reverse_order:
  assumes "sorted_wrt R xs"
  shows "sorted_wrt (\<lambda>a b. k b < k a \<or> (k a = k b \<and> R a b)) (py_sorted_reverse k xs)"
proof -
  let ?ys = "py_sorted_reverse k xs"
  have len: "length ?ys = length xs" by (simp add: py_sorted_reverse_def)
  have "k (?ys ! j) < k (?ys ! i) \<or> (k (?ys ! i) = k (?ys ! j) \<and> R (?ys ! i) (?ys ! j))"
    if "i < j" "j < length ?ys" for i j
  proof (cases "k (?ys ! j) < k (?ys ! i)")
    case True
    then show ?thesis by simp
  next
    case False
    have "k (?ys ! j) \<le> k (?ys ! i)"
      using that len py_sorted_reverse_desc[of i j xs k] by simp
    with False have eq: "k (?ys ! i) = k (?ys ! j)" by simp
    have "sorted_wrt R (filter (\<lambda>y. k y = k (?ys ! j)) ?ys)"
      using assms by (simp add: py_sorted_reverse_stable sorted_wrt_filter)
    then have "R (?ys ! i) (?ys ! j)"
      using that eq by (rule sorted_wrt_filter_nth) simp_all
    with eq show ?thesis by simp
  qed
  then show ?thesis by (simp add: sorted_wrt_iff_nth_less)
qed

lemma set_py_sorted_reverse: "set (py_sorted_reverse k xs) = set xs"
  by (simp add: py_sorted_reverse_def)

lemma length_py_sorted_reverse: "length (py_sorted_reverse k xs) = length xs"
  by (simp add: py_sorted_reverse_def)

lemma unique_clusters_strict: "sorted_wrt (<) (unique_clusters ls)"
  unfolding unique_clusters_def np_unique_def
  by (rule sorted_wrt_filter) (simp add: strict_sorted_iff)

lemma set_unique_clusters: "set (unique_clusters ls) = set ls - {- 1}"
  by (auto simp: unique_clusters_def np_unique_def)

lemma length_unique_clusters: "length (unique_clusters ls) = card (set ls - {- 1})"
proof -
  have "distinct (unique_clusters ls)"
    by (simp add: unique_clusters_def np_unique_def)
  then show ?thesis
    using distinct_card[of "unique_clusters ls"] by (simp add: set_unique_clusters)
qed

lemma length_py_slice_to:
  "0 \<le> n \<Longrightarrow> int (length (py_slice_to n xs)) = min n (int (length xs))"
  by (simp add: py_slice_to_def)

lemma sorted_wrt_py_slice_to: "sorted_wrt R xs \<Longrightarrow> sorted_wrt R (py_slice_to n xs)"
  by (simp add: py_slice_to_def sorted_wrt_take)

lemma set_py_slice_to: "set (py_slice_to n xs) \<subseteq> set xs"
  by (auto simp: py_slice_to_def dest: in_set_takeD)

lemma densest_cluster_labels_order:
  fixes X :: matrix
  defines "density \<equiv> (\<lambda>ls l. cluster_density (cluster_points X ls l))"
  shows "sorted_wrt (\<lambda>a b. density ls b < density ls a \<or> (density ls a = density ls b \<and> a < b))
           (densest_cluster_labels K X ls)"
proof -
  let ?cd = "cluster_densities X ls"
  let ?sc = "sorted_clusters X ls"
  let ?top = "py_slice_to (min K (int (length ?sc))) ?sc"
  have "sorted_wrt (\<lambda>a b. fst a < fst b) ?cd"
    using unique_clusters_strict[of ls]
    by (simp add: cluster_densities_def sorted_wrt_map)
  then have "sorted_wrt (\<lambda>a b. snd b < snd a \<or> (snd a = snd b \<and> fst a < fst b)) ?sc"
    unfolding sorted_clusters_def by (rule py_sorted_reverse_order)
  then have top: "sorted_wrt (\<lambda>a b. snd b < snd a \<or> (snd a = snd b \<and> fst a < fst b)) ?top"
    by (rule sorted_wrt_py_slice_to)
  have snd_eq: "snd a = density ls (fst a)" if "a \<in> set ?top" for a
  proof -
    have "a \<in> set ?cd"
      using that set_py_slice_to[of _ ?sc]
      by (auto simp: sorted_clusters_def set_py_sorted_reverse)
    then show ?thesis by (auto simp: cluster_densities_def density_def)
  qed
  have "sorted_wrt (\<lambda>a b. density ls (fst b) < density ls (fst a)
            \<or> (density ls (fst a) = density ls (fst b) \<and> fst a < fst b)) ?top"
    using top by (rule sorted_wrt_mono_rel[rotated]) (auto simp: snd_eq)
  then show ?thesis
    by (simp add: densest_cluster_labels_def Let_def sorted_wrt_map)
qed

lemma length_densest_cluster_labels:
  "0 \<le> K \<Longrightarrow> int (length (densest_cluster_labels K X ls)) = min K (int (length (unique_clusters ls)))"
  by (simp add: densest_cluster_labels_def Let_def length_py_slice_to sorted_clusters_def
      length_py_sorted_reverse cluster_densities_def)

lemma densest_cluster_labels_empty:
  "unique_clusters ls = [] \<Longrightarrow> densest_cluster_labels K X ls = []"
  by (simp add: densest_cluster_labels_def Let_def sorted_clusters_def cluster_densities_def
      py_sorted_reverse_def py_slice_to_def)

lemma fst_find_dense_clusters:
  "fst (find_dense_clusters fp X mcs ms nc) =
     densest_cluster_labels (arg_or default_n_clusters nc) X (fp (make_clusterer mcs ms) X)"
  by (simp add: find_dense_clusters_def Let_def densest_cluster_labels_empty)

lemma snd_find_dense_clusters:
  "snd (find_dense_clusters fp X mcs ms nc) =
     map (cluster_point_indices (fp (make_clusterer mcs ms) X))
       (fst (find_dense_clusters fp X mcs ms nc))"
  by (simp add: find_dense_clusters_def Let_def)

lemma euclidean_1d: "euclidean [a] [b] = \<bar>a - b\<bar>"
  by (simp add: euclidean_def)

lemma round_f64_one: "round_f64 1 = 1"
  by (subst round_f64_eval[where e = 0])
     (simp_all add: pow2_def round_half_even_def Let_def)

lemma round_f64_eps6: "round_f64 (1 / 10 ^ 6) = 4722366482869645 / 2 ^ 72"
  by (subst round_f64_eval[where e = "- 20"])
     (simp_all add: pow2_def round_half_even_def Let_def)

lemma round_f64_eps6_fixed:
  "round_f64 (4722366482869645 / 2 ^ 72) = 4722366482869645 / 2 ^ 72"
  by (subst round_f64_eval[where e = "- 20"])
     (simp_all add: pow2_def round_half_even_def Let_def)

lemma density_value_0: "round_f64 (1 / round_f64 (0 + round_f64 (1 / 10 ^ 6))) = 1000000"
proof -
  have "round_f64 (1 / (4722366482869645 / 2 ^ 72)) = 1000000"
    by (subst round_f64_eval[where e = 19])
       (simp_all add: pow2_def round_half_even_def Let_def)
  then show ?thesis
    by (simp only: round_f64_eps6 add_0 round_f64_eps6_fixed)
qed

lemma density_value_1:
  "round_f64 (1 / round_f64 (1 + round_f64 (1 / 10 ^ 6))) = 9007190247550745 / 2 ^ 53"
proof -
  have a: "round_f64 (1 + 4722366482869645 / 2 ^ 72) = 4503604130970123 / 2 ^ 52"
    by (subst round_f64_eval[where e = 0])
       (simp_all add: pow2_def round_half_even_def Let_def)
  have b: "round_f64 (1 / (4503604130970123 / 2 ^ 52)) = 9007190247550745 / 2 ^ 53"
    by (subst round_f64_eval[where e = "- 1"])
       (simp_all add: pow2_def round_half_even_def Let_def)
  show ?thesis by (simp only: round_f64_eps6 a b)
qed

lemma cluster_density_pair:
  "cluster_density [p, q]
     = round_f64 (1 / round_f64 (avg_knn_dist 1 [p, q] + round_f64 (1 / 10 ^ 6)))"
  by (simp add: cluster_density_def Let_def)

lemma avg_knn_dist_example_tight: "avg_knn_dist 1 [[0], [0]] = 0"
  by (simp add: avg_knn_dist_def kneighbors_def euclidean_1d np_mean_def round_f64_def)

lemma avg_knn_dist_example_loose: "avg_knn_dist 1 [[0], [1]] = 1"
  by (simp add: avg_knn_dist_def kneighbors_def euclidean_1d np_mean_def round_f64_one)

lemma avg_knn_dist_example_loose': "avg_knn_dist 1 [[3], [4]] = 1"
  by (simp add: avg_knn_dist_def kneighbors_def euclidean_1d np_mean_def round_f64_one)

lemma cluster_density_example_tight: "cluster_density [[0], [0]] = 1000000"
  by (simp only: cluster_density_pair avg_knn_dist_example_tight density_value_0)

lemma cluster_density_example_loose: "cluster_density [[0], [1]] = 9007190247550745 / 2 ^ 53"
  by (simp only: cluster_density_pair avg_knn_dist_example_loose density_value_1)

lemma cluster_density_example_loose': "cluster_density [[3], [4]] = 9007190247550745 / 2 ^ 53"
  by (simp only: cluster_density_pair avg_knn_dist_example_loose' density_value_1)

lemma example_cluster_densities:
  "cluster_densities example_points example_labels =
     [(0, 1000000), (1, 9007190247550745 / 2 ^ 53), (2, 9007190247550745 / 2 ^ 53)]"
proof -
  have "cluster_densities example_points example_labels =
     [(0, cluster_density [[0], [0]]), (1, cluster_density [[0], [1]]),
      (2, cluster_density [[3], [4]])]"
    by (simp add: cluster_densities_def example_points_def example_labels_def
        unique_clusters_def np_unique_def cluster_points_def)
  then show ?thesis
    by (simp only: cluster_density_example_tight cluster_density_example_loose
        cluster_density_example_loose')
qed

lemma example_sorted_clusters:
  "sorted_clusters example_points example_labels =
     [(0, 1000000), (1, 9007190247550745 / 2 ^ 53), (2, 9007190247550745 / 2 ^ 53)]"
  by (simp add: sorted_clusters_def example_cluster_densities py_sorted_reverse_def)

lemma example_find_dense_clusters:
  "find_dense_clusters (\<lambda>c X. example_labels) example_points None None (Some 2) =
     ([0, 1], [[2, 3], [0, 1]])"
  apply (simp add: find_dense_clusters_def Let_def densest_cluster_labels_def example_sorted_clusters py_slice_to_def arg_or_def)
  apply (simp add: example_labels_def unique_clusters_def np_unique_def cluster_point_indices_def upt_rec)
  done

text \<open>
  Claim C1. Whatever labels the clustering returns, the labels selected by
  \<open>find_dense_clusters\<close> for a non-negative \<open>K\<close> are in descending order of density,
  labels of equal density in ascending order, and their number is the minimum of \<open>K\<close>
  and the number of non-noise clusters.
\<close>

theorem find_dense_clusters_top_k:
  assumes "0 \<le> K"
  shows "let cluster_labels = fit_predict (make_clusterer mcs ms) X;
             density = (\<lambda>l. cluster_density (cluster_points X cluster_labels l));
             selection = fst (find_dense_clusters fit_predict X mcs ms (Some K))
         in sorted_wrt (\<lambda>a b. density b < density a \<or> (density a = density b \<and> a < b)) selection
            \<and> int (length selection) = min K (int (card (set cluster_labels - {- 1})))"
  using assms densest_cluster_labels_order[of X "fit_predict (make_clusterer mcs ms) X" K]
    length_densest_cluster_labels[of K X "fit_predict (make_clusterer mcs ms) X"]
  by (simp add: Let_def fst_find_dense_clusters arg_or_def length_unique_clusters)

theorem find_dense_clusters_top_k_witness:
  "(0::int) \<le> 2
   \<and> (let cluster_labels = (\<lambda>c X. example_labels) (make_clusterer None None) example_points;
           density = (\<lambda>l. cluster_density (cluster_points example_points cluster_labels l));
           selection = fst (find_dense_clusters (\<lambda>c X. example_labels) example_points
                              None None (Some 2))
       in sorted_wrt (\<lambda>a b. density b < density a \<or> (density a = density b \<and> a < b)) selection
          \<and> int (length selection) = min 2 (int (card (set cluster_labels - {- 1}))))
   \<and> find_dense_clusters (\<lambda>c X. example_labels) example_points None None (Some 2)
       = ([0, 1], [[2, 3], [0, 1]])"
  using find_dense_clusters_top_k[of 2 "\<lambda>c X. example_labels" None None example_points]
  by (simp add: example_find_dense_clusters)

lemma euclidean_nonneg: "0 \<le> euclidean p q"
  unfolding euclidean_def
  by (rule real_sqrt_ge_zero, rule sum_list_nonneg) auto

lemma kneighbors_nonneg:
  assumes "r \<in> set (kneighbors n P Q)" "d \<in> set r"
  shows "0 \<le> d"
proof -
  obtain q where "r = take n (sort (map (euclidean q) P))"
    using assms(1) by (auto simp: kneighbors_def)
  then have "d \<in> set (map (euclidean q) P)"
    using assms(2) by (auto dest: in_set_takeD)
  then show ?thesis by (auto simp: euclidean_nonneg)
qed

lemma np_mean_nonneg: "(\<And>r d. r \<in> set M \<Longrightarrow> d \<in> set r \<Longrightarrow> 0 \<le> d) \<Longrightarrow> 0 \<le> np_mean M"
  unfolding np_mean_def
  by (rule divide_nonneg_nonneg, rule sum_list_nonneg) auto

lemma avg_knn_dist_nonneg: "0 \<le> avg_knn_dist k pts"
  unfolding avg_knn_dist_def
proof (rule round_f64_nonneg, rule np_mean_nonneg)
  fix r d assume "r \<in> set (map (drop 1) (kneighbors (nat (k + 1)) pts pts))" "d \<in> set r"
  then obtain r' where "r' \<in> set (kneighbors (nat (k + 1)) pts pts)" "d \<in> set r'"
    by (auto dest: in_set_dropD)
  then show "0 \<le> d" by (rule kneighbors_nonneg)
qed

lemma cluster_density_eq:
  "2 \<le> length pts \<Longrightarrow>
     cluster_density pts =
       round_f64 (1 / round_f64 (avg_knn_dist (min 5 (int (length pts) - 1)) pts
                                  + round_f64 (1 / 10 ^ 6)))"
  by (simp add: cluster_density_def Let_def)

text \<open>The score as a function of the average distance does not increase: rounding to the
  nearest double is monotone.\<close>

lemma density_score_antimono:
  assumes "0 \<le> a" "a \<le> b"
  shows "round_f64 (1 / round_f64 (b + round_f64 (1 / 10 ^ 6)))
         \<le> round_f64 (1 / round_f64 (a + round_f64 (1 / 10 ^ 6)))"
proof -
  define e :: real where "e = 4722366482869645 / 2 ^ 72"
  have e: "round_f64 (1 / 10 ^ 6) = e" unfolding e_def by (rule round_f64_eps6)
  have epos: "0 < e" by (simp add: e_def)
  have "round_f64 e \<le> round_f64 (a + e)"
    using assms(1) epos by (intro round_f64_mono) simp_all
  then have sa: "0 < round_f64 (a + e)"
    using epos round_f64_eps6_fixed by (simp add: e_def)
  have "round_f64 (a + e) \<le> round_f64 (b + e)"
    using assms epos by (intro round_f64_mono) simp_all
  then have "1 / round_f64 (b + e) \<le> 1 / round_f64 (a + e)"
    using sa by (simp add: frac_le)
  moreover have "0 \<le> 1 / round_f64 (b + e)"
    using sa \<open>round_f64 (a + e) \<le> round_f64 (b + e)\<close> by simp
  ultimately show ?thesis unfolding e by (rule round_f64_mono[rotated])
qed

text \<open>
  Claim C7, as the code has it. Of two clusters with the same number of points, at least
  two, the one with the strictly smaller average distance to its nearest neighbours has a
  density score \<^verbatim>\<open>1.0 / (avg_dist + 1e-6)\<close> that is greater than or equal to the other's.
\<close>

theorem density_monotone:
  assumes "length A = length B" and "2 \<le> length A"
    and "avg_knn_dist (min 5 (int (length A) - 1)) A < avg_knn_dist (min 5 (int (length B) - 1)) B"
  shows "cluster_density B \<le> cluster_density A"
proof -
  let ?a = "avg_knn_dist (min 5 (int (length A) - 1)) A"
  let ?b = "avg_knn_dist (min 5 (int (length B) - 1)) B"
  have "0 \<le> ?a" by (rule avg_knn_dist_nonneg)
  moreover have "?a \<le> ?b" using assms(3) by simp
  ultimately have "round_f64 (1 / round_f64 (?b + round_f64 (1 / 10 ^ 6)))
         \<le> round_f64 (1 / round_f64 (?a + round_f64 (1 / 10 ^ 6)))"
    by (rule density_score_antimono)
  moreover have "2 \<le> length B" using assms(1,2) by simp
  ultimately show ?thesis using assms(2) by (simp only: cluster_density_eq)
qed

theorem density_monotone_witness:
  "length [[0], [0::real]] = length [[0], [1::real]] \<and> 2 \<le> length [[0], [0::real]]
   \<and> avg_knn_dist (min 5 (int (length [[0], [0::real]]) - 1)) [[0], [0]]
       < avg_knn_dist (min 5 (int (length [[0], [1::real]]) - 1)) [[0], [1]]
   \<and> cluster_density [[0], [1]] \<le> cluster_density [[0], [0]]
   \<and> cluster_density [[0], [0]] = 1000000
   \<and> cluster_density [[0], [1]] = 9007190247550745 / 2 ^ 53"
  using density_monotone[of "[[0], [0]]" "[[0], [1]]"]
  by (simp add: avg_knn_dist_example_tight avg_knn_dist_example_loose
      cluster_density_example_tight cluster_density_example_loose)

text \<open>
  The score is not strictly greater: an average distance of \<open>2\<^sup>-\<^sup>1\<^sup>0\<^sup>0\<close> is absorbed
  by the addition of \<open>1e-6\<close>, whose doubles are \<open>2\<^sup>-\<^sup>7\<^sup>2\<close> apart, so the cluster
  \<open>{0, 2\<^sup>-\<^sup>1\<^sup>0\<^sup>0}\<close> gets the score \<open>1000000.0\<close> of the cluster \<open>{0, 0}\<close>.
\<close>

lemma avg_knn_dist_example_close: "avg_knn_dist 1 [[0], [1 / 2 ^ 100]] = 1 / 2 ^ 100"
proof -
  have "round_f64 (1 / 2 ^ 100) = 1 / 2 ^ 100"
    by (subst round_f64_eval[where e = "- 100"])
       (simp_all add: pow2_def round_half_even_def Let_def)
  moreover have "np_mean (map (drop 1) (kneighbors (nat (1 + 1)) [[0], [1 / 2 ^ 100]]
                   [[0], [1 / 2 ^ 100]])) = 1 / 2 ^ 100"
    by (simp add: kneighbors_def euclidean_1d np_mean_def)
  ultimately show ?thesis by (simp only: avg_knn_dist_def)
qed

lemma cluster_density_example_close: "cluster_density [[0], [1 / 2 ^ 100]] = 1000000"
proof -
  have a: "round_f64 (1 / 2 ^ 100 + 4722366482869645 / 2 ^ 72) = 4722366482869645 / 2 ^ 72"
    by (subst round_f64_eval[where e = "- 20"])
       (simp_all add: pow2_def round_half_even_def Let_def)
  have b: "round_f64 (1 / (4722366482869645 / 2 ^ 72)) = 1000000"
    by (subst round_f64_eval[where e = 19])
       (simp_all add: pow2_def round_half_even_def Let_def)
  show ?thesis
    by (simp only: cluster_density_pair avg_knn_dist_example_close round_f64_eps6 a b)
qed

theorem density_strict_counterexample:
  "length [[0], [0::real]] = length [[0], [1 / 2 ^ 100 :: real]]
   \<and> 2 \<le> length [[0], [0::real]]
   \<and> avg_knn_dist (min 5 (int (length [[0], [0::real]]) - 1)) [[0], [0]]
       < avg_knn_dist (min 5 (int (length [[0], [1 / 2 ^ 100 :: real]]) - 1))
           [[0], [1 / 2 ^ 100]]
   \<and> \<not> cluster_density [[0], [1 / 2 ^ 100]] < cluster_density [[0], [0]]
   \<and> cluster_density [[0], [0]] = 1000000
   \<and> cluster_density [[0], [1 / 2 ^ 100]] = 1000000"
proof -
  have k: "min 5 (int (length [[0], [x::real]]) - 1) = 1" for x by simp
  show ?thesis
    unfolding k avg_knn_dist_example_tight avg_knn_dist_example_close
      cluster_density_example_tight cluster_density_example_close
    by simp
qed

text \<open>
  Claim C9. When the clustering labels every point as noise, \<open>find_dense_clusters\<close> returns
  the empty label list and the empty index list; the function has no raising branch.
\<close>

theorem all_noise_empty_result:
  assumes "set (fit_predict (make_clusterer mcs ms) X) \<subseteq> {- 1}"
  shows "find_dense_clusters fit_predict X mcs ms nc = ([], [])"
proof -
  have "unique_clusters (fit_predict (make_clusterer mcs ms) X) = []"
    using assms by (auto simp: unique_clusters_def np_unique_def filter_empty_conv)
  then show ?thesis by (simp add: find_dense_clusters_def Let_def)
qed

theorem all_noise_empty_result_witness:
  "set ((\<lambda>c X. [- 1, - 1, - 1]) (make_clusterer None None) [[0], [1], [5]]) \<subseteq> {- 1}
   \<and> find_dense_clusters (\<lambda>c X. [- 1, - 1, - 1]) [[0], [1], [5]] None None None = ([], [])"
  using all_noise_empty_result[of "\<lambda>c X. [- 1, - 1, - 1]" None None "[[0], [1], [5]]" None]
  by simp

text \<open>
  Claim C8. Called without a minimum cluster size, \<open>find_dense_clusters\<close> clusters with the
  signature's default, which is 5 and not 10 (the default minimum samples is 5); only
  \<open>main\<close> passes 10, explicitly. The last conjunct runs the function with a clustering that
  reports the minimum cluster size it was given.
\<close>

theorem default_min_cluster_size_is_5:
  "min_cluster_size (make_clusterer None ms) = 5
   \<and> min_cluster_size (make_clusterer None ms) \<noteq> 10
   \<and> min_samples (make_clusterer mcs None) = 5
   \<and> find_dense_clusters fit_predict X None None nc
       = find_dense_clusters fit_predict X (Some 5) (Some 5) nc
   \<and> find_dense_clusters (\<lambda>c X. [min_cluster_size c]) [[0]] None None None = ([5], [[0]])"
  apply (simp add: make_clusterer_def arg_or_def default_min_cluster_size_def default_min_samples_def
      find_dense_clusters_def)
  apply (simp add: unique_clusters_def np_unique_def densest_cluster_labels_def sorted_clusters_def cluster_densities_def
     py_sorted_reverse_def py_slice_to_def default_n_clusters_def cluster_point_indices_def Let_def arg_or_def)
  done

section \<open>Properties of create_unbiased_dataset\<close>


lemma keep_mask_loop_result:
  "list_all (\<lambda>idx. - int (length m) \<le> idx) U \<Longrightarrow>
     \<exists>m'. keep_mask_loop m U = Inr m' \<and> length m' = length m
          \<and> (\<forall>j < length m. m' ! j = (m ! j \<and> \<not> marked (length m) U j))"
proof (induction U arbitrary: m)
  case Nil
  then show ?case by (simp add: marked_def)
next
  case (Cons idx rest)
  let ?N = "length m"
  have rest: "list_all (\<lambda>idx. - int ?N \<le> idx) rest" and lo: "- int ?N \<le> idx"
    using Cons.prems by simp_all
  consider (skip) "int ?N \<le> idx" | (pos) "0 \<le> idx" "idx < int ?N" | (neg) "idx < 0"
    by linarith
  then show ?case
  proof cases
    case skip
    obtain m' where m': "keep_mask_loop m rest = Inr m'" "length m' = ?N"
      "\<forall>j < ?N. m' ! j = (m ! j \<and> \<not> marked ?N rest j)"
      using Cons.IH[OF rest] by blast
    have "marked ?N (idx # rest) j = marked ?N rest j" if "j < ?N" for j
      using that skip by (auto simp: marked_def)
    then show ?thesis using m' skip by simp
  next
    case pos
    let ?m1 = "m[nat idx := False]"
    have "list_all (\<lambda>idx. - int (length ?m1) \<le> idx) rest" using rest by simp
    from Cons.IH[OF this]
    obtain m' where m': "keep_mask_loop ?m1 rest = Inr m'" "length m' = ?N"
      "\<forall>j < ?N. m' ! j = (?m1 ! j \<and> \<not> marked ?N rest j)"
      by auto
    have "(?m1 ! j \<and> \<not> marked ?N rest j) = (m ! j \<and> \<not> marked ?N (idx # rest) j)"
      if "j < ?N" for j
      using that pos by (auto simp: marked_def nth_list_update)
    then show ?thesis using m' pos by simp
  next
    case neg
    let ?m1 = "m[nat (int ?N + idx) := False]"
    have "list_all (\<lambda>idx. - int (length ?m1) \<le> idx) rest" using rest by simp
    from Cons.IH[OF this]
    obtain m' where m': "keep_mask_loop ?m1 rest = Inr m'" "length m' = ?N"
      "\<forall>j < ?N. m' ! j = (?m1 ! j \<and> \<not> marked ?N rest j)"
      by auto
    have "(?m1 ! j \<and> \<not> marked ?N rest j) = (m ! j \<and> \<not> marked ?N (idx # rest) j)"
      if "j < ?N" for j
      using that neg lo by (auto simp: marked_def nth_list_update)
    then show ?thesis using m' neg lo by simp
  qed
qed

lemma np_mask_positions:
  assumes "length flags = length X"
  shows "np_mask X flags = map ((!) X) (filter ((!) flags) [0 ..< length X])"
proof -
  have "zip X flags = map (\<lambda>j. (X ! j, flags ! j)) [0 ..< length X]"
    using assms by (intro nth_equalityI) simp_all
  then show ?thesis
    by (simp add: np_mask_def filter_map comp_def)
qed

text \<open>
  Claim C10. For every removal index list on which the mask loop does not raise (no index
  below \<open>-N\<close>; the rebalancer only reaches the loop with non-negative indices, since
  \<open>DataFrame.drop\<close> has rejected every other label), the split is a partition of the rows:
  the kept rows are the unmarked positions in ascending order, the removed rows the marked
  positions in ascending order, and the two counts add up to \<open>N\<close>. Indices at or beyond
  \<open>N\<close> mark nothing.
\<close>

theorem split_embeddings_partition:
  assumes "list_all (\<lambda>idx. - int (length E) \<le> idx) U"
  shows "\<exists>kept removed.
           split_embeddings E U = Inr (kept, removed)
         \<and> kept = map ((!) E) (filter (\<lambda>j. \<not> marked (length E) U j) [0 ..< length E])
         \<and> removed = map ((!) E) (filter (marked (length E) U) [0 ..< length E])
         \<and> length kept + length removed = length E"
proof -
  let ?N = "length E"
  have "list_all (\<lambda>idx. - int (length (replicate ?N True)) \<le> idx) U"
    using assms by simp
  from keep_mask_loop_result[OF this]
  obtain m' where m': "keep_mask_loop (replicate ?N True) U = Inr m'" "length m' = ?N"
    "\<forall>j < ?N. m' ! j = (\<not> marked ?N U j)"
    by auto
  have k: "filter ((!) m') [0 ..< ?N] = filter (\<lambda>j. \<not> marked ?N U j) [0 ..< ?N]"
    using m'(3) by (intro filter_cong) simp_all
  have r: "filter ((!) (map Not m')) [0 ..< ?N] = filter (marked ?N U) [0 ..< ?N]"
    using m'(2,3) by (intro filter_cong) simp_all
  have "length (filter (\<lambda>j. \<not> marked ?N U j) [0 ..< ?N])
          + length (filter (marked ?N U) [0 ..< ?N]) = ?N"
    using sum_length_filter_compl[of "marked ?N U" "[0 ..< ?N]"] by simp
  then show ?thesis
    using m'(1,2) k r by (simp add: split_embeddings_def np_mask_positions)
qed

theorem split_embeddings_partition_witness:
  "list_all (\<lambda>idx. - int (length [[10], [20], [30], [40::real]]) \<le> idx) [1, 7]
   \<and> (\<exists>kept removed.
           split_embeddings [[10], [20], [30], [40]] [1, 7] = Inr (kept, removed)
         \<and> kept = map ((!) [[10], [20], [30], [40]])
             (filter (\<lambda>j. \<not> marked (length [[10], [20], [30], [40::real]]) [1, 7] j)
                [0 ..< length [[10], [20], [30], [40::real]]])
         \<and> removed = map ((!) [[10], [20], [30], [40]])
             (filter (marked (length [[10], [20], [30], [40::real]]) [1, 7])
                [0 ..< length [[10], [20], [30], [40::real]]])
         \<and> length kept + length removed = length [[10], [20], [30], [40::real]])
   \<and> split_embeddings [[10], [20], [30], [40]] [1, 7] = Inr ([[10], [30], [40]], [[20]])"
  using split_embeddings_partition[of "[[10], [20], [30], [40]]" "[1, 7]"]
  by (simp add: split_embeddings_def np_mask_def)

lemma select_for_cluster_state_free:
  "select_for_cluster rt g1 ids = select_for_cluster rt g2 ids"
  by (simp add: select_for_cluster_def)

lemma select_removals_state_free:
  "snd (select_removals rt g1 cs a c) = snd (select_removals rt g2 cs a c)"
proof (cases cs)
  case Nil
  then show ?thesis by simp
next
  case (Cons x rest)
  obtain n ids where "x = (n, ids)" by (cases x)
  then show ?thesis
    using Cons select_for_cluster_state_free[of rt g1 ids g2] by simp
qed

lemma create_unbiased_dataset_state_free:
  "create_unbiased_dataset rt principal_axes g1 files
     = create_unbiased_dataset rt principal_axes g2 files"
proof -
  have "snd (select_removals rt g1 cs [] []) = snd (select_removals rt g2 cs [] [])" for cs
    by (rule select_removals_state_free)
  then show ?thesis
    by (simp add: create_unbiased_dataset_def Let_def cong: option.case_cong if_cong)
qed

lemma reduce_partitions_cases:
  "reduce_partitions pa E k r =
     (if min (length E) (n_features E) < 6 \<or> E = [] \<or> k = [] \<or> r = [] then Inl ValueError
      else Inr (reducer_transform \<lparr> pca_mean = feature_means E, pca_components = pa (center E) \<rparr> E,
                reducer_transform \<lparr> pca_mean = feature_means E, pca_components = pa (center E) \<rparr> k,
                reducer_transform \<lparr> pca_mean = feature_means E, pca_components = pa (center E) \<rparr> r))"
  by (simp add: reduce_partitions_def pca_fit_def pca_transform_def reducer_transform_def)

lemma rebalance_indices:
  "map_sum id unique_indices_to_remove (rebalance pa df E U counts) =
     (case df_drop df U of
        Inl e \<Rightarrow> Inl e
      | Inr df_kept \<Rightarrow>
          (case df_loc df U of
             Inl e \<Rightarrow> Inl e
           | Inr df_removed \<Rightarrow>
               (case split_embeddings E U of
                  Inl e \<Rightarrow> Inl e
                | Inr (k, r) \<Rightarrow>
                    if min (length E) (n_features E) < 6 \<or> E = [] \<or> k = [] \<or> r = []
                    then Inl ValueError
                    else if length df = 0 then Inl ZeroDivisionError else Inr U)))"
  by (simp add: rebalance_def reduce_partitions_cases split: sum.splits prod.splits)

lemma create_unbiased_dataset_indices_axes_free:
  fixes files :: "'row rebalancer_files"
  shows "map_sum id (map_option unique_indices_to_remove) (create_unbiased_dataset rt pa1 g files)
     = map_sum id (map_option unique_indices_to_remove) (create_unbiased_dataset rt pa2 g files)"
proof -
  have key: "map_sum id (map_option unique_indices_to_remove)
          (case rebalance pa1 df E U c of
             Inl e \<Rightarrow> Inl e
           | Inr out \<Rightarrow> if b then Inl ZeroDivisionError else Inr (Some out))
      = map_sum id (map_option unique_indices_to_remove)
          (case rebalance pa2 df E U c of
             Inl e \<Rightarrow> Inl e
           | Inr out \<Rightarrow> if b then Inl ZeroDivisionError else Inr (Some out))"
    for df :: "'row list" and E U c b
  proof -
    have "map_sum id unique_indices_to_remove (rebalance pa1 df E U c)
        = map_sum id unique_indices_to_remove (rebalance pa2 df E U c)"
      by (simp only: rebalance_indices)
    then show ?thesis
      by (cases "rebalance pa1 df E U c"; cases "rebalance pa2 df E U c") auto
  qed
  show ?thesis
    by (simp add: create_unbiased_dataset_def Let_def key split: option.splits)
qed

text \<open>
  Claim C4. The removal selection does not depend on the generator state a run starts in:
  every cluster's sample is drawn right after \<open>random.seed(42)\<close>. Two runs on the same
  files therefore select the same indices, and end with the same set of removed indices or
  the same error, whatever axes the PCA of either run computes.
\<close>

theorem removal_sampling_deterministic:
  fixes files :: "'row rebalancer_files"
  shows "snd (select_removals rt g1 clusters [] []) = snd (select_removals rt g2 clusters [] [])
   \<and> map_sum id (map_option unique_indices_to_remove)
         (create_unbiased_dataset rt axes1 g1 files)
       = map_sum id (map_option unique_indices_to_remove)
           (create_unbiased_dataset rt axes2 g2 files)"
  using select_removals_state_free[of rt g1 clusters "[]" "[]" g2]
    create_unbiased_dataset_state_free[of rt axes1 g1 files g2]
    create_unbiased_dataset_indices_axes_free[of rt axes1 g2 files axes2]
  by simp

lemma select_for_cluster_eq:
  "select_for_cluster rt g ids =
     ((resume_ids_to_remove rt ids, length (set_to_list rt ids) div 2),
      snd (select_for_cluster rt g ids))"
  by (simp add: select_for_cluster_def resume_ids_to_remove_def Let_def split: prod.splits)

lemma snd_select_removals:
  "snd (select_removals rt g cs a c) =
     (a @ concat (map (\<lambda>(n, ids). resume_ids_to_remove rt ids) cs),
      c @ map (\<lambda>(n, ids). (n, length (set_to_list rt ids) div 2)) cs)"
proof (induction cs arbitrary: g a c)
  case Nil
  then show ?case by simp
next
  case (Cons x cs)
  obtain n ids where x: "x = (n, ids)" by (cases x)
  show ?case
    unfolding x
    by (subst select_removals.simps, subst select_for_cluster_eq) (simp add: Cons.IH)
qed

lemma resume_ids_to_remove_sample:
  assumes "py_runtime_ok rt"
  shows "length (resume_ids_to_remove rt ids) = card (set ids) div 2"
    and "distinct (resume_ids_to_remove rt ids)"
    and "set (resume_ids_to_remove rt ids) \<subseteq> set ids"
proof -
  let ?pop = "set_to_list rt ids"
  let ?k = "length ?pop div 2"
  have pop: "distinct ?pop" "set ?pop = set ids"
    using assms by (simp_all add: py_runtime_ok_def)
  have "?k \<le> length ?pop" by simp
  then obtain ps where ps: "length ps = ?k" "distinct ps" "set ps \<subseteq> {..< length ?pop}"
    "fst (random_sample rt (random_seed rt 42) ?pop ?k) = map ((!) ?pop) ps"
    using assms unfolding py_runtime_ok_def by blast
  have r: "resume_ids_to_remove rt ids = map ((!) ?pop) ps"
    using ps(4) by (simp add: resume_ids_to_remove_def select_for_cluster_def Let_def case_prod_unfold)
  have "length ?pop = card (set ids)"
    using pop distinct_card[of ?pop] by simp
  then show "length (resume_ids_to_remove rt ids) = card (set ids) div 2"
    using r ps(1) by simp
  have "inj_on ((!) ?pop) (set ps)"
  proof (rule inj_onI)
    fix x y assume xy: "x \<in> set ps" "y \<in> set ps" "?pop ! x = ?pop ! y"
    then have "x < length ?pop" "y < length ?pop" using ps(3) by auto
    then show "x = y" using pop(1) xy(3) by (simp add: nth_eq_iff_index_eq)
  qed
  then show "distinct (resume_ids_to_remove rt ids)"
    using r ps(2) by (simp add: distinct_map)
  show "set (resume_ids_to_remove rt ids) \<subseteq> set ids"
    using r ps(3) pop(2) by (auto simp: subset_iff)
qed

lemma length_df_drop:
  assumes "distinct U" and "list_all (\<lambda>l. 0 \<le> l \<and> l < int (length df)) U"
  shows "length (filter (\<lambda>(i, r). int i \<notin> set U) (enumerate 0 df)) + length U = length df"
proof -
  let ?N = "length df"
  have nonneg: "0 \<le> l" and below: "l < int ?N" if "l \<in> set U" for l
    using assms(2) that by (simp_all add: list_all_iff)
  have inj: "inj_on nat (set U)"
  proof (rule inj_onI)
    fix x y assume "x \<in> set U" "y \<in> set U" "nat x = nat y"
    then show "x = y" using nonneg[of x] nonneg[of y] by simp
  qed
  have sub: "nat ` set U \<subseteq> {0 ..< ?N}"
  proof
    fix i assume "i \<in> nat ` set U"
    then obtain l where l: "l \<in> set U" "i = nat l" by auto
    then show "i \<in> {0 ..< ?N}" using nonneg[of l] below[of l] by simp
  qed
  have cardU: "card (nat ` set U) = length U"
    using inj assms(1) by (simp add: card_image distinct_card)
  have mem: "(int i \<in> set U) = (i \<in> nat ` set U)" for i
  proof
    assume "int i \<in> set U"
    then have "nat (int i) \<in> nat ` set U" by (rule imageI)
    then show "i \<in> nat ` set U" by simp
  next
    assume "i \<in> nat ` set U"
    then obtain l where l: "l \<in> set U" "i = nat l" by auto
    then show "int i \<in> set U" using nonneg[of l] by simp
  qed
  have "map fst (filter (\<lambda>(i, r). int i \<notin> set U) xs)
          = filter (\<lambda>i. int i \<notin> set U) (map fst xs)" for xs :: "(nat \<times> 'a) list"
    by (induction xs) auto
  from this[of "enumerate 0 df"]
  have "length (map fst (filter (\<lambda>(i, r). int i \<notin> set U) (enumerate 0 df)))
          = length (filter (\<lambda>i. int i \<notin> set U) [0 ..< ?N])"
    by simp
  then have "length (filter (\<lambda>(i, r). int i \<notin> set U) (enumerate 0 df))
          = length (filter (\<lambda>i. int i \<notin> set U) [0 ..< ?N])"
    by simp
  also have "\<dots> = card ({i. int i \<notin> set U} \<inter> {0 ..< ?N})"
    by (simp add: distinct_length_filter)
  also have "{i. int i \<notin> set U} \<inter> {0 ..< ?N} = {0 ..< ?N} - nat ` set U"
    using mem by auto
  also have "card ({0 ..< ?N} - nat ` set U) = ?N - card (nat ` set U)"
    using sub by (simp add: card_Diff_subset)
  finally have "length (filter (\<lambda>(i, r). int i \<notin> set U) (enumerate 0 df)) = ?N - length U"
    using cardU by simp
  moreover have "length U \<le> ?N"
    using card_mono[OF _ sub] cardU by simp
  ultimately show ?thesis by simp
qed

lemma rebalance_Inr:
  assumes "rebalance pa df E U counts = Inr out"
  shows "list_all (\<lambda>l. 0 \<le> l \<and> l < int (length df)) U"
    and "df_unbiased out = map snd (filter (\<lambda>(i, r). int i \<notin> set U) (enumerate 0 df))"
    and "removed_df out = map (\<lambda>l. df ! nat l) U"
    and "unique_indices_to_remove out = U"
    and "removed_counts out = counts"
    and "split_embeddings E U = Inr (unbiased_embeddings out, removed_embeddings out)"
    and "reduce_partitions pa E (unbiased_embeddings out) (removed_embeddings out)
           = Inr (all_6d_normalized out, unbiased_6d_normalized out, removed_6d_normalized out)"
  using assms
  by (auto simp: rebalance_def df_drop_def df_loc_def split: sum.splits if_splits prod.splits)

lemma create_unbiased_dataset_Inr:
  assumes "create_unbiased_dataset rt pa g files = Inr (Some out)"
  shows "\<exists>df E. cleaned_resumes_csv files = Some df \<and> resume_embeddings_npy files = Some E
           \<and> clusters_dir_exists files
           \<and> rebalance pa df E
               (set_to_list rt (concat (map (\<lambda>(n, ids). resume_ids_to_remove rt ids)
                  (load_cluster_embeddings (cluster_embeddings_json files) top_clusters))))
               (map (\<lambda>(n, ids). (n, length (set_to_list rt ids) div 2))
                  (load_cluster_embeddings (cluster_embeddings_json files) top_clusters))
             = Inr out"
  using assms
  by (auto simp: create_unbiased_dataset_def Let_def snd_select_removals
      split: option.splits if_splits sum.splits)

text \<open>
  Claim C5. With a runtime that keeps the language's guarantees, every loaded target
  cluster has \<open>floor(n / 2)\<close> of its \<open>n\<close> distinct ids selected, without repetition and
  from its own ids, and that number is recorded for it; the indices removed are the union
  of the selections; and in a run that completes the kept and the removed records add up
  to the records read.
\<close>

theorem removal_counts:
  assumes ok: "py_runtime_ok rt"
    and run: "create_unbiased_dataset rt principal_axes g files = Inr (Some out)"
    and df: "cleaned_resumes_csv files = Some df_full"
  shows "let clusters = load_cluster_embeddings (cluster_embeddings_json files) top_clusters
         in list_all (\<lambda>(c, ids). length (resume_ids_to_remove rt ids) = card (set ids) div 2
                         \<and> distinct (resume_ids_to_remove rt ids)
                         \<and> set (resume_ids_to_remove rt ids) \<subseteq> set ids) clusters
            \<and> removed_counts out = map (\<lambda>(c, ids). (c, card (set ids) div 2)) clusters
            \<and> set (unique_indices_to_remove out)
                = (\<Union>(c, ids) \<in> set clusters. set (resume_ids_to_remove rt ids))
            \<and> length (df_unbiased out) + length (removed_df out) = length df_full"
proof -
  let ?cl = "load_cluster_embeddings (cluster_embeddings_json files) top_clusters"
  let ?U = "set_to_list rt (concat (map (\<lambda>(n, ids). resume_ids_to_remove rt ids) ?cl))"
  obtain E where reb: "rebalance principal_axes df_full E ?U
      (map (\<lambda>(n, ids). (n, length (set_to_list rt ids) div 2)) ?cl) = Inr out"
    using create_unbiased_dataset_Inr[OF run] df by auto
  have len: "length (set_to_list rt ids) = card (set ids)" for ids
    using ok distinct_card[of "set_to_list rt ids"] by (simp add: py_runtime_ok_def)
  have U: "distinct ?U" "set ?U = (\<Union>(c, ids) \<in> set ?cl. set (resume_ids_to_remove rt ids))"
    using ok by (auto simp: py_runtime_ok_def)
  have 1: "list_all (\<lambda>(c, ids). length (resume_ids_to_remove rt ids) = card (set ids) div 2
                         \<and> distinct (resume_ids_to_remove rt ids)
                         \<and> set (resume_ids_to_remove rt ids) \<subseteq> set ids) ?cl"
    using resume_ids_to_remove_sample[OF ok] by (simp add: list_all_iff case_prod_unfold)
  have 2: "removed_counts out = map (\<lambda>(c, ids). (c, card (set ids) div 2)) ?cl"
    using rebalance_Inr(5)[OF reb] by (simp add: len)
  have 3: "set (unique_indices_to_remove out)
                = (\<Union>(c, ids) \<in> set ?cl. set (resume_ids_to_remove rt ids))"
    using rebalance_Inr(4)[OF reb] U(2) by simp
  have 4: "length (df_unbiased out) + length (removed_df out) = length df_full"
    using rebalance_Inr(1,2,3)[OF reb] length_df_drop[OF U(1), of df_full] by simp
  show ?thesis using 1 2 3 4 by (simp add: Let_def)
qed

lemma normalize_embeddings_unbiased_rows:
  "normalize_embeddings_unbiased M = map (\<lambda>r. map (\<lambda>x. np_divide x (l2_norm r)) r) M"
  by (simp add: normalize_embeddings_unbiased_def Let_def zip_map2 zip_same_conv_map)

lemma np_mask_map: "np_mask (map h X) flags = map h (np_mask X flags)"
  by (simp add: np_mask_def zip_map1 filter_map comp_def case_prod_unfold)

lemma reducer_transform_np_mask:
  "reducer_transform p (np_mask X flags) = np_mask (reducer_transform p X) flags"
  by (simp add: reducer_transform_def normalize_embeddings_unbiased_rows np_mask_map)

lemma keep_mask_loop_length:
  "keep_mask_loop m U = Inr m' \<Longrightarrow> length m' = length m"
  by (induction m U rule: keep_mask_loop.induct) (auto split: if_splits)

lemma split_embeddings_Inr:
  assumes "split_embeddings E U = Inr (k, r)"
  shows "\<exists>keep. length keep = length E \<and> k = np_mask E keep \<and> r = np_mask E (map Not keep)"
  using assms keep_mask_loop_length[of "replicate (length E) True" U]
  by (auto simp: split_embeddings_def split: sum.splits)

lemma reduce_partitions_Inr:
  assumes "reduce_partitions pa E k r = Inr (a6, k6, r6)"
  shows "\<exists>p. pca_fit pa E = Inr p \<and> a6 = reducer_transform p E
            \<and> k6 = reducer_transform p k \<and> r6 = reducer_transform p r"
  using assms
  by (auto simp: reduce_partitions_def pca_transform_def reducer_transform_def
      split: sum.splits if_splits)

text \<open>
  Claim C6. In a run that completes, one PCA fitted on the full matrix produces all three
  outputs: each is that reducer applied to the matrix on its own, and the kept and removed
  vectors are the rows of the full output selected by the keep mask and by its complement.
\<close>

theorem single_fit_consistency:
  assumes run: "create_unbiased_dataset rt principal_axes g files = Inr (Some out)"
    and emb: "resume_embeddings_npy files = Some all_embeddings"
  shows "\<exists>p keep. pca_fit principal_axes all_embeddings = Inr p
           \<and> length keep = length all_embeddings
           \<and> unbiased_embeddings out = np_mask all_embeddings keep
           \<and> removed_embeddings out = np_mask all_embeddings (map Not keep)
           \<and> all_6d_normalized out = reducer_transform p all_embeddings
           \<and> unbiased_6d_normalized out = reducer_transform p (unbiased_embeddings out)
           \<and> removed_6d_normalized out = reducer_transform p (removed_embeddings out)
           \<and> unbiased_6d_normalized out = np_mask (all_6d_normalized out) keep
           \<and> removed_6d_normalized out = np_mask (all_6d_normalized out) (map Not keep)"
proof -
  obtain df U counts where reb: "rebalance principal_axes df all_embeddings U counts = Inr out"
    using create_unbiased_dataset_Inr[OF run] emb by auto
  obtain keep where keep: "length keep = length all_embeddings"
    "unbiased_embeddings out = np_mask all_embeddings keep"
    "removed_embeddings out = np_mask all_embeddings (map Not keep)"
    using split_embeddings_Inr[OF rebalance_Inr(6)[OF reb]] by auto
  obtain p where p: "pca_fit principal_axes all_embeddings = Inr p"
    "all_6d_normalized out = reducer_transform p all_embeddings"
    "unbiased_6d_normalized out = reducer_transform p (unbiased_embeddings out)"
    "removed_6d_normalized out = reducer_transform p (removed_embeddings out)"
    using reduce_partitions_Inr[OF rebalance_Inr(7)[OF reb]] by auto
  show ?thesis
    using keep p by (auto simp: reducer_transform_np_mask intro!: exI[of _ p] exI[of _ keep])
qed

section \<open>Properties of the normalization\<close>

lemma normalize_embeddings_rows:
  "normalize_embeddings M =
     map (\<lambda>r. map (\<lambda>x. Fin (x / max (l2_norm r) (1 / 10 ^ 10))) r) M"
proof -
  have "np_divide x (max n (1 / 10 ^ 10)) = Fin (x / max n (1 / 10 ^ 10))" for x n :: real
  proof -
    have "(0::real) < 1 / 10 ^ 10" by simp
    then have "max n (1 / 10 ^ 10) \<noteq> 0" by (simp add: max_def)
    then show ?thesis by (simp only: np_divide_def if_False)
  qed
  then show ?thesis
    by (simp add: normalize_embeddings_def Let_def zip_map2 zip_same_conv_map comp_def)
qed



lemma sqrt_25: "sqrt 25 = 5"
  by (rule real_sqrt_unique) simp_all

subsection \<open>Rounding errors of the computed norm\<close>








lemma fsum_simps [simp]:
  "fsum a [] = a" "fsum a (q # qs) = fsum (round_f64 (a + q)) qs"
  by (simp_all add: fsum_def)

lemma fsum_nonneg:
  "0 \<le> a \<Longrightarrow> (\<And>q. q \<in> set qs \<Longrightarrow> 0 \<le> q) \<Longrightarrow> 0 \<le> fsum a qs"
proof (induction qs arbitrary: a)
  case Nil
  then show ?case by simp
next
  case (Cons q qs)
  have "0 \<le> round_f64 (a + q)" using Cons.prems by (intro round_f64_nonneg) simp
  then show ?case using Cons.prems by (simp add: Cons.IH)
qed






lemma f64_eta_small: "f64_eta \<le> 1 / 10 ^ 323"
  by (simp add: f64_eta_def)















subsection \<open>The float64 normalizers\<close>

lemma f64_max_ge: "2 ^ 1000 \<le> f64_max"
proof -
  have "(2::real) ^ 29 * 2 ^ 971 \<le> (2 ^ 53 - 1) * 2 ^ 971" by (intro mult_right_mono) simp_all
  moreover have "(2::real) ^ 29 * 2 ^ 971 = 2 ^ 1000" by (simp only: power_add[symmetric]) simp
  ultimately show ?thesis by (simp only: f64_max_def)
qed

lemma f64_max_pos: "0 < f64_max"
  using f64_max_ge by (simp add: less_le_trans[of 0 "2 ^ 1000" f64_max])

lemma f64_Fin: "\<bar>round_f64 x\<bar> \<le> f64_max \<Longrightarrow> f64 x = Fin (round_f64 x)"
  by (auto simp: f64_def Let_def)

lemma f64_zero [simp]: "f64 0 = Fin 0"
  using f64_max_pos by (simp add: f64_def round_f64_def)

lemma round_f64_zero [simp]: "round_f64 0 = 0"
  by (simp add: round_f64_def)

lemma f64_nonneg_cases:
  assumes "0 \<le> x"
  shows "f64 x = PosInf \<or> f64 x = Fin (round_f64 x)"
proof -
  have "0 \<le> round_f64 x" using assms by (rule round_f64_nonneg)
  then show ?thesis using f64_max_pos by (auto simp: f64_def Let_def)
qed

lemma np_square_cases: "np_square x = PosInf \<or> np_square x = Fin (round_f64 (x * x))"
  unfolding np_square_def by (rule f64_nonneg_cases) simp

lemma foldl_np_add_PosInf: "foldl np_add PosInf (map np_square xs) = PosInf"
proof (induction xs)
  case Nil
  then show ?case by simp
next
  case (Cons x xs)
  have "np_add PosInf (np_square x) = PosInf"
    using np_square_cases[of x] by auto
  then show ?case using Cons by simp
qed

lemma foldl_np_add_cases:
  assumes "0 \<le> a"
  shows "foldl np_add (Fin a) (map np_square xs) = PosInf
         \<or> foldl np_add (Fin a) (map np_square xs)
             = Fin (fsum a (map (\<lambda>x. round_f64 (x * x)) xs))"
  using assms
proof (induction xs arbitrary: a)
  case Nil
  then show ?case by simp
next
  case (Cons x xs)
  show ?case
  proof (cases "np_square x = PosInf")
    case True
    then show ?thesis by (simp add: foldl_np_add_PosInf)
  next
    case False
    then have sq: "np_square x = Fin (round_f64 (x * x))" using np_square_cases[of x] by simp
    have q0: "0 \<le> round_f64 (x * x)" by (simp add: round_f64_nonneg)
    have s0: "0 \<le> a + round_f64 (x * x)" using Cons.prems q0 by simp
    from f64_nonneg_cases[OF s0] show ?thesis
    proof
      assume "f64 (a + round_f64 (x * x)) = PosInf"
      then show ?thesis by (simp add: sq foldl_np_add_PosInf)
    next
      assume f: "f64 (a + round_f64 (x * x)) = Fin (round_f64 (a + round_f64 (x * x)))"
      have "0 \<le> round_f64 (a + round_f64 (x * x))" using s0 by (rule round_f64_nonneg)
      from Cons.IH[OF this] show ?thesis by (simp add: sq f)
    qed
  qed
qed

lemma np_row_norm_cases:
  "np_row_norm r = PosInf
   \<or> np_row_norm r = Fin (round_f64 (sqrt (fsum 0 (map (\<lambda>x. round_f64 (x * x)) r))))"
proof -
  have nonneg: "0 \<le> fsum 0 (map (\<lambda>x. round_f64 (x * x)) r)"
    by (intro fsum_nonneg) (auto simp: round_f64_nonneg)
  from foldl_np_add_cases[of 0 r] show ?thesis
    using nonneg by (auto simp: np_row_norm_def np_sum_def np_sqrt_def)
qed

lemma np_row_norm_Fin:
  "np_row_norm r = Fin n \<Longrightarrow> n = round_f64 (sqrt (fsum 0 (map (\<lambda>x. round_f64 (x * x)) r)))"
  using np_row_norm_cases[of r] by auto

lemma np_row_norm_nonneg: "np_row_norm r = Fin n \<Longrightarrow> 0 \<le> n"
proof -
  assume "np_row_norm r = Fin n"
  then have "n = round_f64 (sqrt (fsum 0 (map (\<lambda>x. round_f64 (x * x)) r)))"
    by (rule np_row_norm_Fin)
  moreover have "0 \<le> fsum 0 (map (\<lambda>x. round_f64 (x * x)) r)"
    by (intro fsum_nonneg) (auto simp: round_f64_nonneg)
  ultimately show ?thesis by (simp add: round_f64_nonneg)
qed


lemma normalize_embeddings_unbiased_f64_rows:
  "normalize_embeddings_unbiased_f64 M =
     map (\<lambda>r. map (\<lambda>x. np_true_divide x (np_row_norm r)) r) M"
  by (simp add: normalize_embeddings_unbiased_f64_def Let_def zip_map2 zip_same_conv_map comp_def)













lemma f64_eval: "round_f64 x = y \<Longrightarrow> \<bar>y\<bar> \<le> 2 ^ 1000 \<Longrightarrow> f64 x = Fin y"
  using f64_Fin[of x] f64_max_ge by simp






text \<open>The row \<open>(3, 4, 0, 0, 0, 0)\<close>.\<close>

lemma round_f64_9: "round_f64 9 = 9"
  by (subst round_f64_eval[where e = 3]) (simp_all add: pow2_def round_half_even_def Let_def)

lemma round_f64_25: "round_f64 25 = 25"
  by (subst round_f64_eval[where e = 4]) (simp_all add: pow2_def round_half_even_def Let_def)

lemma round_f64_16: "round_f64 16 = 16"
  by (subst round_f64_eval[where e = 4]) (simp_all add: pow2_def round_half_even_def Let_def)

lemma round_f64_5: "round_f64 5 = 5"
  by (subst round_f64_eval[where e = 2]) (simp_all add: pow2_def round_half_even_def Let_def)

lemma round_f64_3_5: "round_f64 (3 / 5) = 5404319552844595 / 2 ^ 53"
  by (subst round_f64_eval[where e = "- 1"]) (simp_all add: pow2_def round_half_even_def Let_def)

lemma round_f64_4_5: "round_f64 (4 / 5) = 7205759403792794 / 2 ^ 53"
  by (subst round_f64_eval[where e = "- 1"]) (simp_all add: pow2_def round_half_even_def Let_def)

lemma example_row_norm: "np_row_norm [3, 4, 0, 0, 0, 0] = Fin 5"
proof -
  have "f64 9 = Fin 9" "f64 16 = Fin 16" "f64 25 = Fin 25"
    by (rule f64_eval, rule round_f64_9 round_f64_16 round_f64_25, simp)+
  then show ?thesis
    by (simp add: np_row_norm_def np_sum_def np_square_def np_sqrt_def sqrt_25 round_f64_5)
qed



lemma example_normalize_unbiased_f64:
  "normalize_embeddings_unbiased_f64 [[3, 4, 0, 0, 0, 0]]
     = [[Fin (5404319552844595 / 2 ^ 53), Fin (7205759403792794 / 2 ^ 53),
         Fin 0, Fin 0, Fin 0, Fin 0]]"
proof -
  have a: "f64 (3 / 5) = Fin (5404319552844595 / 2 ^ 53)"
    by (rule f64_eval, rule round_f64_3_5) simp
  have b: "f64 (4 / 5) = Fin (7205759403792794 / 2 ^ 53)"
    by (rule f64_eval, rule round_f64_4_5) simp
  show ?thesis
    unfolding normalize_embeddings_unbiased_f64_rows
    by (simp add: example_row_norm np_true_divide_def a b)
qed










section \<open>Derivation of the reduced vectors\<close>

lemma scaler_transform_fit: "scaler_transform (scaler_fit X) X = map (spec_standardize X) X"
  by (simp add: scaler_transform_def scaler_fit_def spec_standardize_def feature_stds_def)

lemma length_feature_means: "length (feature_means X) = n_features X"
  by (simp add: feature_means_def)

lemma length_feature_stds: "length (feature_stds X) = n_features X"
  by (simp add: feature_stds_def feature_vars_def)

lemma length_spec_standardize:
  "length row = n_features X \<Longrightarrow> length (spec_standardize X row) = n_features X"
  by (simp add: spec_standardize_def length_feature_means length_feature_stds)

lemma nth_spec_standardize:
  "length row = n_features X \<Longrightarrow> j < n_features X \<Longrightarrow>
     spec_standardize X row ! j = (row ! j - feature_means X ! j) / feature_stds X ! j"
  by (simp add: spec_standardize_def length_feature_means length_feature_stds)

lemma sum_list_affine:
  fixes c s :: real
  shows "sum_list (map (\<lambda>r. (f r - c) / s) X) = (sum_list (map f X) - real (length X) * c) / s"
  by (induction X) (simp_all add: algebra_simps add_divide_distrib diff_divide_distrib)

lemma n_features_rows:
  assumes "X \<noteq> []" and "list_all (\<lambda>r. length r = D) X"
  shows "n_features X = D"
  using assms by (cases X) (simp_all add: n_features_def)

lemma feature_means_standardized:
  assumes ne: "X \<noteq> []" and rect: "list_all (\<lambda>r. length r = n_features X) X"
  shows "feature_means (map (spec_standardize X) X) = replicate (n_features X) 0"
proof -
  let ?D = "n_features X"
  let ?Z = "map (spec_standardize X) X"
  have rows: "length r = ?D" if "r \<in> set X" for r
    using rect that by (simp add: list_all_iff)
  have "list_all (\<lambda>r. length r = ?D) ?Z"
    using rows by (simp add: list_all_iff length_spec_standardize)
  then have D: "n_features ?Z = ?D"
    using ne by (intro n_features_rows) simp_all
  have N: "real (length X) \<noteq> 0" using ne by simp
  have col0: "sum_list (column ?Z j) = 0" if j: "j < ?D" for j
  proof -
    have "column ?Z j = map (\<lambda>r. (r ! j - feature_means X ! j) / feature_stds X ! j) X"
      using rows j by (simp add: column_def nth_spec_standardize)
    then have "sum_list (column ?Z j)
        = (sum_list (map (\<lambda>r. r ! j) X) - real (length X) * feature_means X ! j)
            / feature_stds X ! j"
      by (simp only: sum_list_affine)
    moreover have "feature_means X ! j = sum_list (map (\<lambda>r. r ! j) X) / real (length X)"
      using j by (simp add: feature_means_def column_def)
    ultimately show ?thesis using N by simp
  qed
  have "feature_means ?Z = map (\<lambda>j. sum_list (column ?Z j) / real (length ?Z)) [0 ..< ?D]"
    by (simp only: feature_means_def D)
  also have "\<dots> = map (\<lambda>j. 0) [0 ..< ?D]"
    using col0 by (intro map_cong) simp_all
  also have "\<dots> = replicate ?D 0"
    by (simp add: map_replicate_const)
  finally show ?thesis .
qed

lemma vec_sub_zeros: "length row = D \<Longrightarrow> vec_sub row (replicate D 0) = row"
  by (intro nth_equalityI) (simp_all add: vec_sub_def)

lemma np_take_rows:
  "np_take A idxs = Inr X \<Longrightarrow> set X \<subseteq> set A \<and> length X = length idxs"
proof (induction idxs arbitrary: X)
  case Nil
  then show ?case by simp
next
  case (Cons i rest)
  from Cons.prems obtain rows where rows: "np_take A rest = Inr rows"
    and X: "X = A ! nat (if i < 0 then int (length A) + i else i) # rows"
    and range: "\<not> (i < - int (length A) \<or> int (length A) \<le> i)"
    by (auto split: if_splits sum.splits)
  have "nat (if i < 0 then int (length A) + i else i) < length A"
    using range by auto
  then have "A ! nat (if i < 0 then int (length A) + i else i) \<in> set A"
    by (rule nth_mem)
  then show ?case using Cons.IH[OF rows] X by auto
qed

lemma cluster_path_derivation:
  assumes rect: "list_all (\<lambda>r. length r = n_features A) A"
    and run: "save_cluster_embeddings_6d pa (Some A) idxs = Inr (Some out6)"
  shows "\<exists>X. np_take A (filter (\<lambda>idx. idx < int (length A)) idxs) = Inr X \<and> X \<noteq> []
           \<and> out6 = map (\<lambda>x. map Fin (spec_reduced_vector pa X x)) X"
proof -
  let ?valid = "filter (\<lambda>idx. idx < int (length A)) idxs"
  from run have valid: "?valid \<noteq> []"
    by (auto simp: save_cluster_embeddings_6d_def Let_def split: if_splits)
  from run valid obtain X where X: "np_take A ?valid = Inr X"
    by (auto simp: save_cluster_embeddings_6d_def Let_def split: sum.splits)
  let ?Z = "map (spec_standardize X) X"
  have Xrows: "set X \<subseteq> set A" "length X = length ?valid"
    using np_take_rows[OF X] by simp_all
  then have ne: "X \<noteq> []" using valid by auto
  have "list_all (\<lambda>r. length r = n_features A) X"
    using rect Xrows(1) by (auto simp: list_all_iff)
  then have rectX: "list_all (\<lambda>r. length r = n_features X) X"
    using n_features_rows[OF ne, of "n_features A"] by simp
  have Zrows: "length z = n_features X" if "z \<in> set ?Z" for z
    using that rectX by (auto simp: list_all_iff length_spec_standardize)
  have means: "feature_means ?Z = replicate (n_features X) 0"
    by (rule feature_means_standardized[OF ne rectX])
  have cen: "center ?Z = ?Z"
    unfolding center_def means using Zrows by (intro map_idI) (simp add: vec_sub_zeros)
  from run valid X obtain p e6 where p: "pca_fit pa ?Z = Inr p"
    and e6: "pca_transform p ?Z = Inr e6" and out: "out6 = normalize_embeddings e6"
    by (auto simp: save_cluster_embeddings_6d_def Let_def scaler_transform_fit
        split: sum.splits)
  have pval: "p = \<lparr> pca_mean = replicate (n_features X) 0, pca_components = pa ?Z \<rparr>"
    using p cen means by (auto simp: pca_fit_def split: if_splits)
  have proj: "pca_project p z = map (dot z) (pa ?Z)" if "z \<in> set ?Z" for z
    using Zrows[OF that] by (simp add: pca_project_def pval vec_sub_zeros)
  have "e6 = map (pca_project p) ?Z"
    using e6 by (auto simp: pca_transform_def split: if_splits)
  also have "\<dots> = map (\<lambda>z. map (dot z) (pa ?Z)) ?Z"
    using proj by (intro map_cong) simp_all
  finally have "out6 = map (\<lambda>x. map Fin (spec_reduced_vector pa X x)) X"
    by (simp add: out normalize_embeddings_rows spec_reduced_vector_def Let_def comp_def)
  then show ?thesis using X ne by blast
qed

lemma reducer_transform_rows:
  assumes "pca_fit pa A = Inr p"
  shows "list_all2 (\<lambda>x out. l2_norm (raw_projection pa A x) = 0
                        \<or> out = map Fin (raw_reduced_vector pa A x))
           M (reducer_transform p M)"
proof -
  have p: "p = \<lparr> pca_mean = feature_means A, pca_components = pa (center A) \<rparr>"
    using assms by (auto simp: pca_fit_def split: if_splits)
  have proj: "pca_project p x = raw_projection pa A x" for x
    by (simp add: p pca_project_def raw_projection_def center_def Let_def)
  have step: "l2_norm y = 0
      \<or> map (\<lambda>c. np_divide c (l2_norm y)) y = map Fin (map (\<lambda>c. c / l2_norm y) y)" for y
    by (cases "l2_norm y = 0") (simp_all add: np_divide_def)
  have "reducer_transform p M
      = map (\<lambda>x. map (\<lambda>c. np_divide c (l2_norm (raw_projection pa A x)))
                    (raw_projection pa A x)) M"
    by (simp add: reducer_transform_def normalize_embeddings_unbiased_rows proj comp_def)
  then show ?thesis
    using step by (simp add: raw_reduced_vector_def Let_def list_all2_map2 list_all2_same)
qed

text \<open>
  Claim C3, as the code has it. On the per-cluster export path every reduced vector is the
  specification's derivation from the cluster's own embeddings: standardize, project onto
  the principal axes of the standardized cluster matrix, normalize. The rebalancer's full,
  kept and removed outputs are derived without standardization: each vector whose
  projection is not zero is the centred embedding projected onto the principal axes of the
  raw full matrix and divided by its norm.
\<close>

theorem reduced_vector_derivation:
  assumes rect: "list_all (\<lambda>r. length r = n_features all_embeddings) all_embeddings"
  shows "(save_cluster_embeddings_6d principal_axes (Some all_embeddings) resume_indices
            = Inr (Some embeddings_6d) \<longrightarrow>
          (\<exists>cluster_embeddings.
              np_take all_embeddings
                (filter (\<lambda>idx. idx < int (length all_embeddings)) resume_indices)
                = Inr cluster_embeddings
            \<and> embeddings_6d =
                map (\<lambda>x. map Fin (spec_reduced_vector principal_axes cluster_embeddings x))
                  cluster_embeddings))
       \<and> (create_unbiased_dataset rt principal_axes g files = Inr (Some out)
            \<and> resume_embeddings_npy files = Some all_embeddings \<longrightarrow>
          (let derived = (\<lambda>x v. l2_norm (raw_projection principal_axes all_embeddings x) = 0
                             \<or> v = map Fin (raw_reduced_vector principal_axes all_embeddings x))
           in list_all2 derived all_embeddings (all_6d_normalized out)
              \<and> list_all2 derived (unbiased_embeddings out) (unbiased_6d_normalized out)
              \<and> list_all2 derived (removed_embeddings out) (removed_6d_normalized out)))"
proof (intro conjI impI)
  assume "save_cluster_embeddings_6d principal_axes (Some all_embeddings) resume_indices
            = Inr (Some embeddings_6d)"
  from cluster_path_derivation[OF rect this]
  show "\<exists>cluster_embeddings.
              np_take all_embeddings
                (filter (\<lambda>idx. idx < int (length all_embeddings)) resume_indices)
                = Inr cluster_embeddings
            \<and> embeddings_6d =
                map (\<lambda>x. map Fin (spec_reduced_vector principal_axes cluster_embeddings x))
                  cluster_embeddings"
    by blast
next
  assume a: "create_unbiased_dataset rt principal_axes g files = Inr (Some out)
            \<and> resume_embeddings_npy files = Some all_embeddings"
  then obtain df U counts where
    reb: "rebalance principal_axes df all_embeddings U counts = Inr out"
    using create_unbiased_dataset_Inr[of rt principal_axes g files out] by auto
  obtain p where p: "pca_fit principal_axes all_embeddings = Inr p"
    "all_6d_normalized out = reducer_transform p all_embeddings"
    "unbiased_6d_normalized out = reducer_transform p (unbiased_embeddings out)"
    "removed_6d_normalized out = reducer_transform p (removed_embeddings out)"
    using reduce_partitions_Inr[OF rebalance_Inr(7)[OF reb]] by auto
  show "let derived = (\<lambda>x v. l2_norm (raw_projection principal_axes all_embeddings x) = 0
                             \<or> v = map Fin (raw_reduced_vector principal_axes all_embeddings x))
           in list_all2 derived all_embeddings (all_6d_normalized out)
              \<and> list_all2 derived (unbiased_embeddings out) (unbiased_6d_normalized out)
              \<and> list_all2 derived (removed_embeddings out) (removed_6d_normalized out)"
    unfolding Let_def p(2,3,4)
    using reducer_transform_rows[OF p(1)] by blast
qed

section \<open>The example run\<close>

lemma sqrt_9: "sqrt 9 = 3"
  by (rule real_sqrt_unique) simp_all

lemma sqrt_100: "sqrt 100 = 10"
  by (rule real_sqrt_unique) simp_all

lemma l2_norm_axis:
  "l2_norm [c, 0, 0, 0, 0, 0] = \<bar>c\<bar>"
  "l2_norm [0, c, 0, 0, 0, 0] = \<bar>c\<bar>"
  "l2_norm [0, 0, c, 0, 0, 0] = \<bar>c\<bar>"
  "l2_norm [0, 0, 0, c, 0, 0] = \<bar>c\<bar>"
  "l2_norm [0, 0, 0, 0, c, 0] = \<bar>c\<bar>"
  "l2_norm [0, 0, 0, 0, 0, c] = \<bar>c\<bar>"
  by (simp_all add: l2_norm_def)

lemma example_means: "feature_means example_embeddings = [0, 0, 0, 0, 0, 0, 0, 0]"
  by (simp add: feature_means_def n_features_def column_def example_embeddings_def upt_rec)

lemma example_center: "center example_embeddings = example_embeddings"
  unfolding center_def example_means by (simp add: vec_sub_def example_embeddings_def)

lemma example_vars: "feature_vars example_embeddings = [9, 9, 9, 9, 100, 100, 100, 100]"
  unfolding feature_vars_def example_means
  by (simp add: n_features_def column_def example_embeddings_def upt_rec)

lemma example_stds: "feature_stds example_embeddings = [3, 3, 3, 3, 10, 10, 10, 10]"
  by (simp add: feature_stds_def example_vars sqrt_9 sqrt_100)

lemma example_runtime_ok: "py_runtime_ok example_runtime"
proof -
  have "\<exists>ps. length ps = k \<and> distinct ps \<and> set ps \<subseteq> {..< length pop}
              \<and> take k pop = map ((!) pop) ps" if "k \<le> length pop" for k and pop :: "int list"
  proof (intro exI[of _ "[0 ..< k]"] conjI)
    show "take k pop = map ((!) pop) [0 ..< k]"
      using that by (intro nth_equalityI) simp_all
  qed (use that in auto)
  then show ?thesis
    by (simp add: py_runtime_ok_def example_runtime_def)
qed

lemma example_selection:
  "snd (select_removals example_runtime g
          (load_cluster_embeddings (cluster_embeddings_json example_files) top_clusters) [] [])
     = ([0, 1, 6], [(1, 2), (2, 1)])"
  by (simp add: example_files_def top_clusters_def select_for_cluster_def example_runtime_def)

lemma example_unique: "set_to_list example_runtime [0, 1, 6] = [0, 1, 6]"
  by (simp add: example_runtime_def)

lemma example_drop:
  "df_drop [100, 101, 102, 103, 104, 105, 106, 107, 108, 109, 110, 111 :: nat] [0, 1, 6]
     = Inr [102, 103, 104, 105, 107, 108, 109, 110, 111]"
  by (simp add: df_drop_def)

lemma example_loc:
  "df_loc [100, 101, 102, 103, 104, 105, 106, 107, 108, 109, 110, 111 :: nat] [0, 1, 6]
     = Inr [100, 101, 106]"
  by (simp add: df_loc_def)

lemma example_split:
  "split_embeddings example_embeddings [0, 1, 6]
     = Inr (unbiased_embeddings example_output, removed_embeddings example_output)"
  by (simp add: split_embeddings_def np_mask_def example_embeddings_def example_output_def)

lemma example_fit:
  "pca_fit example_principal_axes example_embeddings
     = Inr \<lparr> pca_mean = [0, 0, 0, 0, 0, 0, 0, 0], pca_components = example_axes_raw \<rparr>"
proof -
  have "\<not> min (length example_embeddings) (n_features example_embeddings) < 6"
    by (simp add: example_embeddings_def n_features_def)
  then show ?thesis
    by (simp add: pca_fit_def example_means example_center example_principal_axes_def)
qed

lemma example_project_all:
  "map (pca_project \<lparr> pca_mean = [0, 0, 0, 0, 0, 0, 0, 0], pca_components = example_axes_raw \<rparr>)
     example_embeddings =
     [[0, 0, 14, 0, 0, 0],
      [0, 0, - 14, 0, 0, 0],
      [0, 0, 0, 0, 4, 0],
      [0, 0, 0, 0, - 4, 0],
      [0, 0, 0, 0, 0, 2],
      [0, 0, 0, 0, 0, - 2],
      [44, 0, 0, 0, 0, 0],
      [- 44, 0, 0, 0, 0, 0],
      [0, 20, 0, 0, 0, 0],
      [0, - 20, 0, 0, 0, 0],
      [0, 0, 0, 8, 0, 0],
      [0, 0, 0, - 8, 0, 0]]"
  by (simp add: pca_project_def vec_sub_def dot_def example_embeddings_def example_axes_raw_def)

lemma example_normalize_all:
  "normalize_embeddings_unbiased
     [[0, 0, 14, 0, 0, 0],
      [0, 0, - 14, 0, 0, 0],
      [0, 0, 0, 0, 4, 0],
      [0, 0, 0, 0, - 4, 0],
      [0, 0, 0, 0, 0, 2],
      [0, 0, 0, 0, 0, - 2],
      [44, 0, 0, 0, 0, 0],
      [- 44, 0, 0, 0, 0, 0],
      [0, 20, 0, 0, 0, 0],
      [0, - 20, 0, 0, 0, 0],
      [0, 0, 0, 8, 0, 0],
      [0, 0, 0, - 8, 0, 0]] = example_all_6d"
  by (simp add: normalize_embeddings_unbiased_rows l2_norm_axis np_divide_def example_all_6d_def)

lemma example_reducer_all:
  "reducer_transform \<lparr> pca_mean = [0, 0, 0, 0, 0, 0, 0, 0], pca_components = example_axes_raw \<rparr>
     example_embeddings = example_all_6d"
  by (simp only: reducer_transform_def example_project_all example_normalize_all)

lemma example_transpose:
  "transpose example_embeddings =
     [[7, - 7, 2, - 2, 1, - 1, 0, 0, 0, 0, 0, 0],
      [7, - 7, 2, - 2, - 1, 1, 0, 0, 0, 0, 0, 0],
      [7, - 7, - 2, 2, 1, - 1, 0, 0, 0, 0, 0, 0],
      [7, - 7, - 2, 2, - 1, 1, 0, 0, 0, 0, 0, 0],
      [0, 0, 0, 0, 0, 0, 22, - 22, 10, - 10, 4, - 4],
      [0, 0, 0, 0, 0, 0, 22, - 22, 10, - 10, - 4, 4],
      [0, 0, 0, 0, 0, 0, 22, - 22, - 10, 10, 4, - 4],
      [0, 0, 0, 0, 0, 0, 22, - 22, - 10, 10, - 4, 4]]"
  by (simp add: example_embeddings_def transpose.simps)

lemma example_raw_axes_certified:
  "principal_axes_certificate (center example_embeddings) example_axes_raw
     [3872, 800, 392, 128, 32, 8]"
  unfolding example_center principal_axes_certificate_def gram_apply_def example_transpose
  by (simp add: mat_vec_def dot_def example_embeddings_def example_axes_raw_def upt_rec)


lemma example_standardized_transpose:
  "transpose example_standardized =
     [[7 / 3, - (7 / 3), 2 / 3, - (2 / 3), 1 / 3, - (1 / 3), 0, 0, 0, 0, 0, 0],
      [7 / 3, - (7 / 3), 2 / 3, - (2 / 3), - (1 / 3), 1 / 3, 0, 0, 0, 0, 0, 0],
      [7 / 3, - (7 / 3), - (2 / 3), 2 / 3, 1 / 3, - (1 / 3), 0, 0, 0, 0, 0, 0],
      [7 / 3, - (7 / 3), - (2 / 3), 2 / 3, - (1 / 3), 1 / 3, 0, 0, 0, 0, 0, 0],
      [0, 0, 0, 0, 0, 0, 11 / 5, - (11 / 5), 1, - 1, 2 / 5, - (2 / 5)],
      [0, 0, 0, 0, 0, 0, 11 / 5, - (11 / 5), 1, - 1, - (2 / 5), 2 / 5],
      [0, 0, 0, 0, 0, 0, 11 / 5, - (11 / 5), - 1, 1, 2 / 5, - (2 / 5)],
      [0, 0, 0, 0, 0, 0, 11 / 5, - (11 / 5), - 1, 1, - (2 / 5), 2 / 5]]"
  by (simp add: example_standardized_def transpose.simps)

lemma example_std_axes_certified:
  "principal_axes_certificate example_standardized example_axes_std
     [392 / 9, 968 / 25, 8, 32 / 9, 32 / 25, 8 / 9]"
  unfolding principal_axes_certificate_def gram_apply_def example_standardized_transpose
  by (simp add: mat_vec_def dot_def example_standardized_def example_axes_std_def upt_rec)

lemma example_kept_rows:
  "unbiased_embeddings example_output
     = np_mask example_embeddings
         [False, False, True, True, True, True, False, True, True, True, True, True]"
  by (simp add: example_output_def example_embeddings_def np_mask_def)

lemma example_removed_rows:
  "removed_embeddings example_output
     = np_mask example_embeddings
         [True, True, False, False, False, False, True, False, False, False, False, False]"
  by (simp add: example_output_def example_embeddings_def np_mask_def)

lemma example_reducer_kept:
  "reducer_transform \<lparr> pca_mean = [0, 0, 0, 0, 0, 0, 0, 0], pca_components = example_axes_raw \<rparr>
     (unbiased_embeddings example_output) = unbiased_6d_normalized example_output"
  unfolding example_kept_rows reducer_transform_np_mask example_reducer_all
  by (simp add: np_mask_def example_all_6d_def example_output_def)

lemma example_reducer_removed:
  "reducer_transform \<lparr> pca_mean = [0, 0, 0, 0, 0, 0, 0, 0], pca_components = example_axes_raw \<rparr>
     (removed_embeddings example_output) = removed_6d_normalized example_output"
  unfolding example_removed_rows reducer_transform_np_mask example_reducer_all
  by (simp add: np_mask_def example_all_6d_def example_output_def)

lemma example_reduce_partitions:
  "reduce_partitions example_principal_axes example_embeddings
     (unbiased_embeddings example_output) (removed_embeddings example_output)
     = Inr (example_all_6d, unbiased_6d_normalized example_output,
            removed_6d_normalized example_output)"
proof -
  have ne: "example_embeddings \<noteq> []" "unbiased_embeddings example_output \<noteq> []"
    "removed_embeddings example_output \<noteq> []"
    by (simp_all add: example_embeddings_def example_output_def)
  show ?thesis
    using ne example_reducer_all example_reducer_kept example_reducer_removed
    by (simp add: reduce_partitions_def example_fit pca_transform_def reducer_transform_def)
qed

lemma example_rebalance:
  "rebalance example_principal_axes
     [100, 101, 102, 103, 104, 105, 106, 107, 108, 109, 110, 111 :: nat]
     example_embeddings [0, 1, 6] [(1, 2), (2, 1)] = Inr example_output"
  by (simp add: rebalance_def example_drop example_loc example_split example_reduce_partitions)
     (simp add: example_output_def)

lemma example_run:
  "create_unbiased_dataset example_runtime example_principal_axes g example_files
     = Inr (Some example_output)"
proof -
  have ne: "list_ex (\<lambda>(cluster_num, resume_ids). length resume_ids = 0)
              (load_cluster_embeddings (cluster_embeddings_json example_files) top_clusters)
            = False"
    by (simp add: example_files_def top_clusters_def)
  have "create_unbiased_dataset example_runtime example_principal_axes g example_files
      = (case rebalance example_principal_axes
                [100, 101, 102, 103, 104, 105, 106, 107, 108, 109, 110, 111 :: nat]
                example_embeddings [0, 1, 6] [(1, 2), (2, 1)] of
           Inl e \<Rightarrow> Inl e
         | Inr out \<Rightarrow> if False then Inl ZeroDivisionError else Inr (Some out))"
    unfolding create_unbiased_dataset_def Let_def example_selection ne
    by (simp add: example_files_def example_unique del: One_nat_def)
  then show ?thesis by (simp only: example_rebalance sum.case if_False)
qed

lemma example_standardize_all:
  "map (spec_standardize example_embeddings) example_embeddings = example_standardized"
  unfolding spec_standardize_def example_means example_stds
  by (simp add: example_embeddings_def example_standardized_def)

lemma example_axes_of_standardized:
  "example_principal_axes example_standardized = example_axes_std"
  by (simp add: example_principal_axes_def example_standardized_def example_embeddings_def)

lemma example_project_standardized:
  "map (\<lambda>z. map (dot z) example_axes_std) example_standardized =
     [[14 / 3, 0, 0, 0, 0, 0],
      [- (14 / 3), 0, 0, 0, 0, 0],
      [0, 0, 0, 4 / 3, 0, 0],
      [0, 0, 0, - (4 / 3), 0, 0],
      [0, 0, 0, 0, 0, 2 / 3],
      [0, 0, 0, 0, 0, - (2 / 3)],
      [0, 22 / 5, 0, 0, 0, 0],
      [0, - (22 / 5), 0, 0, 0, 0],
      [0, 0, 2, 0, 0, 0],
      [0, 0, - 2, 0, 0, 0],
      [0, 0, 0, 0, 4 / 5, 0],
      [0, 0, 0, 0, - (4 / 5), 0]]"
  by (simp add: dot_def example_standardized_def example_axes_std_def)

lemma example_floor_normalize:
  "map (\<lambda>y. map (\<lambda>c. Fin (c / max (l2_norm y) (1 / 10 ^ 10))) y)
     [[14 / 3, 0, 0, 0, 0, 0],
      [- (14 / 3), 0, 0, 0, 0, 0],
      [0, 0, 0, 4 / 3, 0, 0],
      [0, 0, 0, - (4 / 3), 0, 0],
      [0, 0, 0, 0, 0, 2 / 3],
      [0, 0, 0, 0, 0, - (2 / 3)],
      [0, 22 / 5, 0, 0, 0, 0],
      [0, - (22 / 5), 0, 0, 0, 0],
      [0, 0, 2, 0, 0, 0],
      [0, 0, - 2, 0, 0, 0],
      [0, 0, 0, 0, 4 / 5, 0],
      [0, 0, 0, 0, - (4 / 5), 0]] = example_spec_6d"
  by (simp add: l2_norm_axis example_spec_6d_def)

lemma example_spec_vectors:
  "map (\<lambda>x. map Fin (spec_reduced_vector example_principal_axes example_embeddings x))
     example_embeddings = example_spec_6d"
proof -
  have step: "map Fin (spec_reduced_vector example_principal_axes example_embeddings x)
      = (\<lambda>y. map (\<lambda>c. Fin (c / max (l2_norm y) (1 / 10 ^ 10))) y)
          (map (dot (spec_standardize example_embeddings x)) example_axes_std)" for x
    by (simp add: spec_reduced_vector_def Let_def comp_def example_standardize_all
        example_axes_of_standardized)
  have "map (\<lambda>x. map Fin (spec_reduced_vector example_principal_axes example_embeddings x))
          example_embeddings
      = map (\<lambda>y. map (\<lambda>c. Fin (c / max (l2_norm y) (1 / 10 ^ 10))) y)
          (map (\<lambda>z. map (dot z) example_axes_std)
             (map (spec_standardize example_embeddings) example_embeddings))"
    by (simp only: step map_map comp_def)
  then show ?thesis
    by (simp only: example_standardize_all example_project_standardized example_floor_normalize)
qed

lemma example_take_all:
  "np_take example_embeddings [0, 1, 2, 3, 4, 5, 6, 7, 8, 9, 10, 11] = Inr example_embeddings"
  by (simp add: example_embeddings_def)

lemma example_rectangular:
  "list_all (\<lambda>r. length r = n_features example_embeddings) example_embeddings"
  by (simp add: example_embeddings_def n_features_def)

lemma example_standardized_means:
  "feature_means example_standardized = [0, 0, 0, 0, 0, 0, 0, 0]"
  by (simp add: feature_means_def n_features_def column_def example_standardized_def upt_rec)

lemma example_standardized_center: "center example_standardized = example_standardized"
  unfolding center_def example_standardized_means
  by (simp add: vec_sub_def example_standardized_def)

lemma example_project_standardized_pca:
  "map (pca_project \<lparr> pca_mean = [0, 0, 0, 0, 0, 0, 0, 0], pca_components = example_axes_std \<rparr>)
     example_standardized = map (\<lambda>z. map (dot z) example_axes_std) example_standardized"
  by (simp add: pca_project_def vec_sub_def dot_def example_standardized_def)

lemma example_cluster_run:
  "save_cluster_embeddings_6d example_principal_axes (Some example_embeddings)
     [0, 1, 2, 3, 4, 5, 6, 7, 8, 9, 10, 11] = Inr (Some example_spec_6d)"
proof -
  have len: "length example_embeddings = 12" by (simp add: example_embeddings_def)
  have fit: "pca_fit example_principal_axes example_standardized
      = Inr \<lparr> pca_mean = [0, 0, 0, 0, 0, 0, 0, 0], pca_components = example_axes_std \<rparr>"
  proof -
    have "\<not> min (length example_standardized) (n_features example_standardized) < 6"
      by (simp add: example_standardized_def n_features_def)
    then show ?thesis
      by (simp add: pca_fit_def example_standardized_means example_standardized_center
          example_axes_of_standardized)
  qed
  have ne: "example_standardized \<noteq> []" by (simp add: example_standardized_def)
  have norm: "normalize_embeddings (map (\<lambda>z. map (dot z) example_axes_std) example_standardized)
      = example_spec_6d"
    by (simp only: normalize_embeddings_rows example_project_standardized example_floor_normalize)
  show ?thesis
    using ne
    by (simp add: save_cluster_embeddings_6d_def len example_take_all scaler_transform_fit
        example_standardize_all fit pca_transform_def example_project_standardized_pca norm
        del: np_take.simps)
qed

theorem removal_counts_witness:
  "py_runtime_ok example_runtime
   \<and> create_unbiased_dataset example_runtime example_principal_axes 0 example_files
       = Inr (Some example_output)
   \<and> cleaned_resumes_csv example_files
       = Some [100, 101, 102, 103, 104, 105, 106, 107, 108, 109, 110, 111]
   \<and> (let clusters = load_cluster_embeddings (cluster_embeddings_json example_files) top_clusters
       in list_all (\<lambda>(c, ids).
              length (resume_ids_to_remove example_runtime ids) = card (set ids) div 2
              \<and> distinct (resume_ids_to_remove example_runtime ids)
              \<and> set (resume_ids_to_remove example_runtime ids) \<subseteq> set ids) clusters
          \<and> removed_counts example_output = map (\<lambda>(c, ids). (c, card (set ids) div 2)) clusters
          \<and> set (unique_indices_to_remove example_output)
              = (\<Union>(c, ids) \<in> set clusters. set (resume_ids_to_remove example_runtime ids))
          \<and> length (df_unbiased example_output) + length (removed_df example_output)
              = length [100, 101, 102, 103, 104, 105, 106, 107, 108, 109, 110, 111 :: nat])
   \<and> removed_counts example_output = [(1, 2), (2, 1)]
   \<and> unique_indices_to_remove example_output = [0, 1, 6]
   \<and> length (df_unbiased example_output) = 9 \<and> length (removed_df example_output) = 3"
proof -
  have df: "cleaned_resumes_csv example_files
       = Some [100, 101, 102, 103, 104, 105, 106, 107, 108, 109, 110, 111]"
    by (simp add: example_files_def)
  have vals: "removed_counts example_output = [(1, 2), (2, 1)]"
    "unique_indices_to_remove example_output = [0, 1, 6]"
    "length (df_unbiased example_output) = 9" "length (removed_df example_output) = 3"
    by (simp_all add: example_output_def)
  show ?thesis
    using removal_counts[OF example_runtime_ok example_run[of 0] df]
      example_runtime_ok example_run[of 0] df vals
    by blast
qed

theorem single_fit_consistency_witness:
  "create_unbiased_dataset example_runtime example_principal_axes 0 example_files
       = Inr (Some example_output)
   \<and> resume_embeddings_npy example_files = Some example_embeddings
   \<and> (\<exists>p keep. pca_fit example_principal_axes example_embeddings = Inr p
           \<and> length keep = length example_embeddings
           \<and> unbiased_embeddings example_output = np_mask example_embeddings keep
           \<and> removed_embeddings example_output = np_mask example_embeddings (map Not keep)
           \<and> all_6d_normalized example_output = reducer_transform p example_embeddings
           \<and> unbiased_6d_normalized example_output
               = reducer_transform p (unbiased_embeddings example_output)
           \<and> removed_6d_normalized example_output
               = reducer_transform p (removed_embeddings example_output)
           \<and> unbiased_6d_normalized example_output
               = np_mask (all_6d_normalized example_output) keep
           \<and> removed_6d_normalized example_output
               = np_mask (all_6d_normalized example_output) (map Not keep))"
proof -
  have emb: "resume_embeddings_npy example_files = Some example_embeddings"
    by (simp add: example_files_def)
  show ?thesis
    using single_fit_consistency[OF example_run[of 0] emb] example_run[of 0] emb
    by blast
qed

theorem reduced_vector_derivation_witness:
  "list_all (\<lambda>r. length r = n_features example_embeddings) example_embeddings
   \<and> save_cluster_embeddings_6d example_principal_axes (Some example_embeddings)
        [0, 1, 2, 3, 4, 5, 6, 7, 8, 9, 10, 11] = Inr (Some example_spec_6d)
   \<and> (\<exists>cluster_embeddings.
          np_take example_embeddings
            (filter (\<lambda>idx. idx < int (length example_embeddings))
               [0, 1, 2, 3, 4, 5, 6, 7, 8, 9, 10, 11]) = Inr cluster_embeddings
        \<and> example_spec_6d =
            map (\<lambda>x. map Fin (spec_reduced_vector example_principal_axes cluster_embeddings x))
              cluster_embeddings)
   \<and> create_unbiased_dataset example_runtime example_principal_axes 0 example_files
       = Inr (Some example_output)
   \<and> resume_embeddings_npy example_files = Some example_embeddings
   \<and> (let derived =
             (\<lambda>x v. l2_norm (raw_projection example_principal_axes example_embeddings x) = 0
                  \<or> v = map Fin (raw_reduced_vector example_principal_axes example_embeddings x))
       in list_all2 derived example_embeddings (all_6d_normalized example_output)
          \<and> list_all2 derived (unbiased_embeddings example_output)
               (unbiased_6d_normalized example_output)
          \<and> list_all2 derived (removed_embeddings example_output)
               (removed_6d_normalized example_output))"
proof -
  have emb: "resume_embeddings_npy example_files = Some example_embeddings"
    by (simp add: example_files_def)
  show ?thesis
    using reduced_vector_derivation[OF example_rectangular,
        where principal_axes = example_principal_axes
          and resume_indices = "[0, 1, 2, 3, 4, 5, 6, 7, 8, 9, 10, 11]"
          and embeddings_6d = example_spec_6d and rt = example_runtime and g = 0
          and files = example_files and out = example_output]
      example_rectangular example_cluster_run example_run[of 0] emb
    by blast
qed

text \<open>
  On the example the rebalancer's vectors are not the ones standardization would give:
  for the first embedding the rebalancer puts out the third unit vector, the
  specification's derivation the first. The two differ in the position of the non-zero
  coordinate, so no choice of signs of the axes reconciles them.
\<close>

theorem rebalancer_not_standardized_counterexample:
  "create_unbiased_dataset example_runtime example_principal_axes 0 example_files
       = Inr (Some example_output)
   \<and> resume_embeddings_npy example_files = Some example_embeddings
   \<and> all_6d_normalized example_output
       \<noteq> map (\<lambda>x. map Fin (spec_reduced_vector example_principal_axes example_embeddings x))
           example_embeddings
   \<and> all_6d_normalized example_output ! 0 = [Fin 0, Fin 0, Fin 1, Fin 0, Fin 0, Fin 0]
   \<and> map Fin (spec_reduced_vector example_principal_axes example_embeddings
                 (example_embeddings ! 0)) = [Fin 1, Fin 0, Fin 0, Fin 0, Fin 0, Fin 0]"
proof -
  have emb: "resume_embeddings_npy example_files = Some example_embeddings"
    by (simp add: example_files_def)
  have a: "all_6d_normalized example_output ! 0 = [Fin 0, Fin 0, Fin 1, Fin 0, Fin 0, Fin 0]"
    by (simp add: example_output_def example_all_6d_def)
  have "map (\<lambda>x. map Fin (spec_reduced_vector example_principal_axes example_embeddings x))
          example_embeddings ! 0 = [Fin 1, Fin 0, Fin 0, Fin 0, Fin 0, Fin 0]"
    unfolding example_spec_vectors by (simp add: example_spec_6d_def)
  moreover have "0 < length example_embeddings" by (simp add: example_embeddings_def)
  ultimately have b: "map Fin (spec_reduced_vector example_principal_axes example_embeddings
                 (example_embeddings ! 0)) = [Fin 1, Fin 0, Fin 0, Fin 0, Fin 0, Fin 0]"
    by simp
  have c: "all_6d_normalized example_output
       \<noteq> map (\<lambda>x. map Fin (spec_reduced_vector example_principal_axes example_embeddings x))
           example_embeddings"
    unfolding example_spec_vectors
    by (simp add: example_output_def example_all_6d_def example_spec_6d_def)
  show ?thesis using example_run[of 0] emb a b c by blast
qed

end
